theory Spec2Isabelle
  imports Main "HOL-Library.AList" "HOL-Library.Char_ord" "HOL-Library.List_Lexorder"
begin

section \<open>The peer pool of xud (lib/p2p/Pool.ts)\<close>

text \<open>
  A shallow embedding of the class \<open>Pool\<close>. The pool's fields are a record that every
  method takes and returns; a thrown error is the left summand of the result; every call
  that leaves the pool (closing a peer, destroying a socket, sending a packet, a call
  into the node list) is an entry of an effect list, in the order the calls are made.
  An \<open>await\<close> is a point where other tasks may run: the methods that await take an
  environment that says how the awaited operation ends and what the rest of the program
  did to the pool in the meantime.
\<close>

subsection \<open>Data\<close>

text \<open>
  Modelled from the spec: the enum \<open>DisconnectionReason\<close> is declared in
  lib/constants/enums, which is not part of the sources at hand; its members are the wire
  codes of section 6 of the specification, in their order.
\<close>

datatype DisconnectionReason =
    Shutdown
  | IncompatibleProtocolVersion
  | MalformedVersion
  | Banned
  | AlreadyConnected
  | ConnectedToSelf
  | NotAcceptingConnections
  | ResponseStalling
  | WireProtocolErr

text \<open>
  Modelled from the spec: the enum \<open>ReputationEvent\<close> is declared in
  lib/constants/enums as well. The six members that \<open>addReputationEvent\<close> names are
  taken from Pool.ts, \<open>SwapSuccess\<close> from section 4.3 of the specification, and
  \<open>OtherEvent n\<close> stands for any further member of the enum.
\<close>

datatype ReputationEvent =
    ManualBan
  | ManualUnban
  | SwapAbuse
  | SwapMisbehavior
  | WireProtocolErr
  | InvalidAuth
  | SwapSuccess
  | OtherEvent nat

text \<open>The type \<open>Address\<close> of lib/p2p/types: host, port and the optional time stamp.\<close>

record Address =
  host :: string
  port :: nat
  lastConnected :: "nat option"

text \<open>\<open>NodeConnectionInfo\<close>: what \<open>tryConnectNode\<close> is given about a node.\<close>

record NodeConnectionInfo =
  node_nodePubKey :: string
  node_addresses :: "Address list"
  node_lastAddress :: "Address option"

text \<open>
  The errors of lib/p2p/errors that Pool.ts throws or inspects, with the arguments Pool.ts
  passes. \<open>HANDSHAKE_FAILED\<close> stands for any other error that \<open>Peer.beginOpen\<close> or
  \<open>Peer.completeOpen\<close> throws.
\<close>

datatype p2p_error =
    ATTEMPTED_CONNECTION_TO_SELF
  | POOL_CLOSED
  | NODE_TOR_ADDRESS string Address
  | NODE_IS_BANNED string
  | NODE_ALREADY_CONNECTED string "Address option"
  | ALREADY_CONNECTING string
  | NOT_CONNECTED string
  | MALFORMED_VERSION "Address option" string
  | INCOMPATIBLE_VERSION "Address option" string string
  | CONNECTION_RETRIES_MAX_PERIOD_EXCEEDED
  | HANDSHAKE_FAILED string

text \<open>
  Modelled from the spec: the class \<open>Peer\<close> is declared in lib/p2p/Peer.ts, which is
  not part of the sources at hand. The record has the fields of a \<open>Peer\<close> object that
  Pool.ts reads or writes, as section 3 of the specification and the uses in Pool.ts give
  them. \<open>peer_ident\<close> is the identity of
  the object (the pool keeps peers in a \<open>Set\<close> and compares them by reference).
  Pool.ts tests \<open>peer.nodePubKey\<close>, \<open>peer.addresses\<close> and \<open>peer.address\<close> for
  presence, so the three are optional here.
\<close>

record Peer =
  peer_ident :: nat
  peer_inbound :: bool
  peer_address :: "Address option"
  peer_nodePubKey :: "string option"
  peer_version :: string
  peer_addresses :: "Address list option"
  peer_active :: bool
  peer_connected :: bool
  sentDisconnectionReason :: "DisconnectionReason option"
  recvDisconnectionReason :: "DisconnectionReason option"

text \<open>
  The fields of \<open>Pool\<close>. The two \<open>Map\<close>s are association lists in insertion order (a
  JavaScript \<open>Map\<close> iterates in insertion order and \<open>set\<close> on a present key keeps the
  key's place, which is what \<open>AList.update\<close> does); the \<open>Set\<close> of pending inbound
  peers is a list without repetitions of an identity. \<open>bannedNodes\<close> is the part of the
  node list that \<open>nodes.isBanned\<close> reads (lib/p2p/NodeList.ts is not part of the
  sources at hand). \<open>server\<close> says whether the pool was
  configured to listen, \<open>serverListening\<close> whether the server is listening,
  \<open>nextPeerId\<close> is the identity the next \<open>Peer\<close> object gets.

  \<open>loadingNodesPromise\<close> is the field of that name together with the state of the
  promise in it. \<open>init\<close> stores the promise of \<open>nodes.load()\<close> there and leaves it
  there until the callback it attaches with \<open>then\<close> has finished: \<open>NodesLoading\<close>
  means that the load is pending, \<open>NodesConnecting\<close> that the promise is fulfilled and
  the callback is suspended in \<open>await this.connectNodes(this.nodes, true, true)\<close>, the
  bulk reconnection to the known nodes; \<open>None\<close> means that the field is undefined.
\<close>

datatype LoadingNodes = NodesLoading | NodesConnecting

record Pool =
  nodePubKey :: string
  pendingOutboundPeers :: "(string \<times> Peer) list"
  pendingInboundPeers :: "Peer list"
  bannedNodes :: "string list"
  loadingNodesPromise :: "LoadingNodes option"
  peers :: "(string \<times> Peer) list"
  server :: bool
  serverListening :: bool
  disconnecting :: bool
  connected :: bool
  listenPort :: "nat option"
  config_tor :: bool
  strict :: bool
  minCompatibleVersion :: string
  nextPeerId :: nat

text \<open>
  What a method of the pool does to the world outside the record, in call order. A peer
  is named by its identity. \<open>TryConnectNode node retry\<close> is the start of the call
  \<open>this.tryConnectNode(node, retry)\<close>; \<open>HandleOpenedPeer\<close> the start of the routine
  for a newly opened peer, which \<open>openPeer\<close> does not wait for; \<open>ConnectNodes\<close> the
  start of \<open>this.connectNodes(this.nodes, allowKnown, retryConnecting)\<close>.
  \<open>AwaitLoadingNodes\<close> is \<open>await this.loadingNodesPromise\<close> and \<open>AwaitClosing\<close> the
  \<open>await Promise.all([...])\<close> of \<open>disconnect\<close>.
\<close>

datatype effect =
    PeerClose nat "DisconnectionReason option"
  | RevokeConnectionRetries nat
  | RemoveAllListeners nat
  | SocketDestroy
  | ServerClose
  | AwaitLoadingNodes
  | AwaitClosing
  | ConnectNodes bool bool
  | RemoveAddress "string option" "Address option"
  | HandleOpenedPeer nat
  | SendNodes nat "(string option \<times> Address list) list" string
  | EmitPeerClose "string option"
  | TryConnectNode NodeConnectionInfo bool
  | NodesAddReputationEvent string ReputationEvent

subsection \<open>addReputationEvent\<close>

text \<open>
  \<open>addReputationEvent\<close> forwards the event to \<open>NodeList.addReputationEvent\<close> in strict
  mode, and otherwise only when it is one of six events.
\<close>

definition addReputationEvent :: "Pool \<Rightarrow> string \<Rightarrow> ReputationEvent \<Rightarrow> effect list" where
  "addReputationEvent pool k event =
     (if strict pool
         \<or> event = ManualBan
         \<or> event = ManualUnban
         \<or> event = SwapAbuse
         \<or> event = SwapMisbehavior
         \<or> event = WireProtocolErr
         \<or> event = InvalidAuth
      then [NodesAddReputationEvent k event]
      else [])"

subsection \<open>Helpers of the language and of addressUtils\<close>

text \<open>\<open>Map.prototype.has\<close> on an association list.\<close>

definition has :: "(string \<times> 'a) list \<Rightarrow> string \<Rightarrow> bool" where
  "has m k = (map_of m k \<noteq> None)"

text \<open>\<open>String.prototype.indexOf\<close>: the first position of a substring, or -1.\<close>

fun startsWith :: "string \<Rightarrow> string \<Rightarrow> bool" where
  "startsWith s [] = True"
| "startsWith [] (p # ps) = False"
| "startsWith (c # cs) (p # ps) = (c = p \<and> startsWith cs ps)"

fun indexOf_from :: "nat \<Rightarrow> string \<Rightarrow> string \<Rightarrow> int" where
  "indexOf_from i [] pat = (if pat = [] then int i else - 1)"
| "indexOf_from i (c # cs) pat =
     (if startsWith (c # cs) pat then int i else indexOf_from (Suc i) cs pat)"

definition indexOf :: "string \<Rightarrow> string \<Rightarrow> int" where
  "indexOf s pat = indexOf_from 0 s pat"

text \<open>
  Modelled from the spec: \<open>NodeList.isBanned\<close> (lib/p2p/NodeList.ts is not part of the
  sources at hand) answers whether the ban marker of section 4.3 is set for a key.
\<close>

definition isBanned :: "Pool \<Rightarrow> string \<Rightarrow> bool" where
  "isBanned pool k = (k \<in> set (bannedNodes pool))"

text \<open>
  Modelled from the spec: \<open>addressUtils.areEqual\<close> (lib/utils/addressUtils is not part
  of the sources at hand): equality of addresses ignores \<open>lastConnected\<close> (section 3).
\<close>

definition areEqual :: "Address \<Rightarrow> Address \<Rightarrow> bool" where
  "areEqual a b = (host a = host b \<and> port a = port b)"

text \<open>
  Modelled from the spec: \<open>addressUtils.sortByLastConnected\<close> returns the addresses
  sorted by \<open>lastConnected\<close> descending (sections 4.3 and 4.4). An address without the
  time stamp counts as never connected (time 0); the sort is stable, as
  \<open>Array.prototype.sort\<close> is.
\<close>

definition lastConnectedTime :: "Address \<Rightarrow> nat" where
  "lastConnectedTime a = (case lastConnected a of None \<Rightarrow> 0 | Some t \<Rightarrow> t)"

definition sortByLastConnected :: "Address list \<Rightarrow> Address list" where
  "sortByLastConnected as = sort_key (\<lambda>a. - int (lastConnectedTime a)) as"

text \<open>
  Modelled from the spec: the two ways Pool.ts makes a \<open>Peer\<close>: \<open>new Peer(logger,
  address, network)\<close> for an outbound connection and \<open>Peer.fromInbound(socket, ...)\<close>
  for an accepted socket. A new peer is not active, has no node pub key yet (it is unknown
  until the handshake) and has neither sent nor received a disconnection reason.
\<close>

record Socket =
  remoteAddress :: "string option"
  remotePort :: nat

definition newPeer :: "nat \<Rightarrow> Address \<Rightarrow> Peer" where
  "newPeer i a =
     \<lparr> peer_ident = i, peer_inbound = False, peer_address = Some a,
       peer_nodePubKey = None, peer_version = [], peer_addresses = None,
       peer_active = False, peer_connected = False,
       sentDisconnectionReason = None, recvDisconnectionReason = None \<rparr>"

definition fromInbound :: "nat \<Rightarrow> Socket \<Rightarrow> Peer" where
  "fromInbound i sock =
     \<lparr> peer_ident = i, peer_inbound = True,
       peer_address =
         (case remoteAddress sock of
            None \<Rightarrow> None
          | Some h \<Rightarrow> Some \<lparr> host = h, port = remotePort sock, lastConnected = None \<rparr>),
       peer_nodePubKey = None, peer_version = [], peer_addresses = None,
       peer_active = False, peer_connected = True,
       sentDisconnectionReason = None, recvDisconnectionReason = None \<rparr>"

subsection \<open>addOutbound, up to the insertion into pendingOutboundPeers\<close>

definition addressIsSelf :: "Pool \<Rightarrow> Address \<Rightarrow> bool" where
  "addressIsSelf pool a =
     (if Some (port a) = listenPort pool
      then host a = ''::'' \<or> host a = ''0.0.0.0'' \<or> host a = ''::1''
             \<or> host a = ''127.0.0.1'' \<or> host a = ''localhost''
      else False)"

text \<open>
  The part of \<open>addOutbound\<close> that runs before its only \<open>await\<close>: the six checks, the
  new \<open>Peer\<close> and \<open>pendingOutboundPeers.set\<close>. It returns the error thrown, or the
  pool, the new peer and the effects so far.
\<close>

definition addOutbound_insert ::
  "Pool \<Rightarrow> Address \<Rightarrow> string \<Rightarrow> Pool \<times> Peer" where
  "addOutbound_insert pool a k =
     (let peer = newPeer (nextPeerId pool) a
      in (pool \<lparr> pendingOutboundPeers := AList.update k peer (pendingOutboundPeers pool),
                 nextPeerId := Suc (nextPeerId pool) \<rparr>,
          peer))"

definition addOutbound_begin ::
  "Pool \<Rightarrow> Address \<Rightarrow> string \<Rightarrow> bool \<Rightarrow> p2p_error + (Pool \<times> Peer \<times> effect list)" where
  "addOutbound_begin pool a k revokeConnectionRetries =
     (if k = nodePubKey pool \<or> addressIsSelf pool a then Inl ATTEMPTED_CONNECTION_TO_SELF
      else if disconnecting pool \<or> \<not> connected pool then Inl POOL_CLOSED
      else if \<not> config_tor pool \<and> indexOf (host a) ''.onion'' \<noteq> - 1
        then Inl (NODE_TOR_ADDRESS k a)
      else if isBanned pool k then Inl (NODE_IS_BANNED k)
      else if has (peers pool) k then Inl (NODE_ALREADY_CONNECTED k (Some a))
      else
        (case map_of (pendingOutboundPeers pool) k of
           None \<Rightarrow>
             (case addOutbound_insert pool a k of (pool', peer) \<Rightarrow> Inr (pool', peer, []))
         | Some pendingPeer \<Rightarrow>
             if revokeConnectionRetries
             then (case addOutbound_insert pool a k of
                     (pool', peer) \<Rightarrow>
                       Inr (pool', peer, [RevokeConnectionRetries (peer_ident pendingPeer)]))
             else Inl (ALREADY_CONNECTING k)))"

subsection \<open>validatePeer\<close>

text \<open>
  \<open>validatePeer\<close> reads the pool and the peer and either returns or closes the peer and
  throws. The functions \<open>semver.valid\<close> and \<open>semver.compare\<close> of the semver package
  are parameters. \<open>assert(peer.nodePubKey)\<close> fails on a missing and on an empty key;
  on success the asserted key is returned, as the caller reads it again with
  \<open>peer.nodePubKey!\<close>.
\<close>

datatype failure = Assertion | Thrown p2p_error

definition validatePeer ::
  "(string \<Rightarrow> bool) \<Rightarrow> (string \<Rightarrow> string \<Rightarrow> int) \<Rightarrow> Pool \<Rightarrow> Peer \<Rightarrow> (failure + string) \<times> effect list" where
  "validatePeer semver_valid semver_compare pool peer =
     (case peer_nodePubKey peer of
        None \<Rightarrow> (Inl Assertion, [])
      | Some peerPubKey \<Rightarrow>
          if peerPubKey = [] then (Inl Assertion, [])
          else if peerPubKey = nodePubKey pool
            then (Inl (Thrown ATTEMPTED_CONNECTION_TO_SELF),
                  [PeerClose (peer_ident peer) (Some ConnectedToSelf)])
          else if \<not> semver_valid (peer_version peer)
            then (Inl (Thrown (MALFORMED_VERSION (peer_address peer) (peer_version peer))),
                  [PeerClose (peer_ident peer) (Some MalformedVersion)])
          else if semver_compare (peer_version peer) (minCompatibleVersion pool) = - 1
            then (Inl (Thrown (INCOMPATIBLE_VERSION (peer_address peer) (minCompatibleVersion pool)
                                 (peer_version peer))),
                  [PeerClose (peer_ident peer) (Some IncompatibleProtocolVersion)])
          else if \<not> connected pool
            then (Inl (Thrown POOL_CLOSED),
                  [PeerClose (peer_ident peer) (Some NotAcceptingConnections)])
          else if isBanned pool peerPubKey
            then (Inl (Thrown (NODE_IS_BANNED peerPubKey)),
                  [PeerClose (peer_ident peer) (Some Banned)])
          else if has (peers pool) peerPubKey
            then (Inl (Thrown (NODE_ALREADY_CONNECTED peerPubKey (peer_address peer))),
                  [PeerClose (peer_ident peer) (Some AlreadyConnected)])
          else if \<not> peer_connected peer
            then (Inl (Thrown (NOT_CONNECTED peerPubKey)), [])
          else (Inr peerPubKey, []))"

subsection \<open>openPeer\<close>

text \<open>
  Modelled from the spec: \<open>Peer.beginOpen\<close> (lib/p2p/Peer.ts is not part of the
  sources at hand) exchanges the Hello of section 4.2; when it succeeds the \<open>Peer\<close>
  object holds the remote node's key, version and advertised addresses, which Pool.ts
  reads afterwards, and \<open>peer.connected\<close> says whether the socket is still there.
\<close>

record Handshake =
  hs_nodePubKey :: "string option"
  hs_version :: string
  hs_addresses :: "Address list option"
  hs_connected :: bool

definition after_hello :: "Peer \<Rightarrow> Handshake \<Rightarrow> Peer" where
  "after_hello peer hs =
     peer \<lparr> peer_nodePubKey := hs_nodePubKey hs,
            peer_version := hs_version hs,
            peer_addresses := hs_addresses hs,
            peer_connected := hs_connected hs \<rparr>"

text \<open>
  The environment of one call of \<open>openPeer\<close>: the semver package, how each awaited
  operation ends, and for each \<open>await\<close> after which the pool is read again what the
  other tasks did to the pool while \<open>openPeer\<close> was suspended. \<open>stillConnected\<close> is the
  value of the promise of that name: true when \<open>Peer.STALL_INTERVAL\<close> has passed
  without a \<open>close\<close> event of the existing peer.
\<close>

record OpenEnv =
  semver_valid :: "string \<Rightarrow> bool"
  semver_compare :: "string \<Rightarrow> string \<Rightarrow> int"
  beginOpen :: "p2p_error + Handshake"
  during_beginOpen :: "Pool \<Rightarrow> Pool"
  completeOpen :: "p2p_error option"
  during_completeOpen :: "Pool \<Rightarrow> Pool"
  stillConnected :: bool
  during_wait :: "Pool \<Rightarrow> Pool"

text \<open>The \<open>catch\<close> block of \<open>openPeer\<close>: one call into the node list, then rethrow.\<close>

definition openPeer_catch :: "failure \<Rightarrow> Peer \<Rightarrow> string option \<Rightarrow> effect list" where
  "openPeer_catch err peer expectedNodePubKey =
     (if err = Thrown CONNECTION_RETRIES_MAX_PERIOD_EXCEEDED
      then [RemoveAddress expectedNodePubKey (peer_address peer)]
      else [])"

text \<open>
  The \<open>try\<close> block of \<open>openPeer\<close>: \<open>beginOpen\<close>, \<open>validatePeer\<close>, \<open>completeOpen\<close>.
  On success it returns the peer as the handshake left it and the key that
  \<open>validatePeer\<close> asserted.
\<close>

definition openPeer_try ::
  "OpenEnv \<Rightarrow> Pool \<Rightarrow> Peer \<Rightarrow> string option \<Rightarrow> (failure + (Peer \<times> string)) \<times> Pool \<times> effect list" where
  "openPeer_try env pool peer expectedNodePubKey =
     (case beginOpen env of
        Inl err \<Rightarrow>
          (Inl (Thrown err), during_beginOpen env pool,
           openPeer_catch (Thrown err) peer expectedNodePubKey)
      | Inr hs \<Rightarrow>
          (let pool1 = during_beginOpen env pool;
               peer1 = after_hello peer hs
           in case validatePeer (semver_valid env) (semver_compare env) pool1 peer1 of
                (Inl err, effs) \<Rightarrow>
                  (Inl err, pool1, effs @ openPeer_catch err peer1 expectedNodePubKey)
              | (Inr peerPubKey, effs) \<Rightarrow>
                  (case completeOpen env of
                     Some err \<Rightarrow>
                       (Inl (Thrown err), during_completeOpen env pool1,
                        effs @ openPeer_catch (Thrown err) peer1 expectedNodePubKey)
                   | None \<Rightarrow>
                       (Inr (peer1, peerPubKey), during_completeOpen env pool1, effs))))"

text \<open>
  The rest of \<open>openPeer\<close>, after the handshake has completed: the resolution of a
  duplicate connection and the admission into \<open>peers\<close>. JavaScript compares two
  strings with \<open>>\<close> lexicographically by character code, a proper prefix being
  the smaller; that is the order of \<open>HOL-Library.List_Lexorder\<close> over
  \<open>HOL-Library.Char_ord\<close>.
\<close>

definition openPeer_set :: "Pool \<Rightarrow> Peer \<Rightarrow> string \<Rightarrow> (failure + Peer) \<times> Pool \<times> effect list" where
  "openPeer_set pool peer peerPubKey =
     (let peer' = peer \<lparr> peer_active := True \<rparr>
      in (Inr peer',
          pool \<lparr> peers := AList.update peerPubKey peer' (peers pool) \<rparr>,
          [HandleOpenedPeer (peer_ident peer)]))"

definition openPeer_admit ::
  "OpenEnv \<Rightarrow> Pool \<Rightarrow> Peer \<Rightarrow> string \<Rightarrow> (failure + Peer) \<times> Pool \<times> effect list" where
  "openPeer_admit env pool peer peerPubKey =
     (if has (peers pool) peerPubKey then
        if nodePubKey pool > peerPubKey
        then (Inl (Thrown (NODE_ALREADY_CONNECTED peerPubKey (peer_address peer))), pool,
              [PeerClose (peer_ident peer) (Some AlreadyConnected)])
        else
          (let pool1 = during_wait env pool
           in if stillConnected env
              then (Inl (Thrown (NODE_ALREADY_CONNECTED peerPubKey (peer_address peer))), pool1,
                    [PeerClose (peer_ident peer) (Some AlreadyConnected)])
              else openPeer_set pool1 peer peerPubKey)
      else openPeer_set pool peer peerPubKey)"

definition openPeer ::
  "OpenEnv \<Rightarrow> Pool \<Rightarrow> Peer \<Rightarrow> string option \<Rightarrow> bool \<Rightarrow> (failure + Peer) \<times> Pool \<times> effect list" where
  "openPeer env pool peer expectedNodePubKey retryConnecting =
     (if disconnecting pool \<or> \<not> connected pool then (Inl (Thrown POOL_CLOSED), pool, [])
      else
        (case openPeer_try env pool peer expectedNodePubKey of
           (Inl err, pool1, effs) \<Rightarrow> (Inl err, pool1, effs)
         | (Inr (peer1, peerPubKey), pool1, effs) \<Rightarrow>
             (case openPeer_admit env pool1 peer1 peerPubKey of
                (r, pool2, effs2) \<Rightarrow> (r, pool2, effs @ effs2))))"

definition tryOpenPeer ::
  "OpenEnv \<Rightarrow> Pool \<Rightarrow> Peer \<Rightarrow> string option \<Rightarrow> bool \<Rightarrow> Pool \<times> effect list" where
  "tryOpenPeer env pool peer peerPubKey retryConnecting =
     (case openPeer env pool peer peerPubKey retryConnecting of
        (r, pool1, effs) \<Rightarrow> (pool1, effs))"

subsection \<open>addOutbound\<close>

definition addOutbound ::
  "OpenEnv \<Rightarrow> Pool \<Rightarrow> Address \<Rightarrow> string \<Rightarrow> bool \<Rightarrow> bool \<Rightarrow> (failure + Peer) \<times> Pool \<times> effect list" where
  "addOutbound env pool a k retryConnecting revokeConnectionRetries =
     (case addOutbound_begin pool a k revokeConnectionRetries of
        Inl err \<Rightarrow> (Inl (Thrown err), pool, [])
      | Inr (pool1, peer, effs) \<Rightarrow>
          (case openPeer env pool1 peer (Some k) retryConnecting of
             (r, pool2, effs2) \<Rightarrow>
               (r,
                pool2 \<lparr> pendingOutboundPeers := AList.delete k (pendingOutboundPeers pool2) \<rparr>,
                effs @ effs2)))"

subsection \<open>Inbound connections\<close>

text \<open>
  \<open>addInbound\<close> up to its \<open>await\<close>: the new \<open>Peer\<close> and
  \<open>pendingInboundPeers.add\<close> (a \<open>Set\<close> adds an object only if it is not a member).
\<close>

definition addInbound_add :: "Pool \<Rightarrow> Socket \<Rightarrow> Pool \<times> Peer" where
  "addInbound_add pool sock =
     (let peer = fromInbound (nextPeerId pool) sock
      in (pool \<lparr> pendingInboundPeers :=
                   (if peer_ident peer \<in> peer_ident ` set (pendingInboundPeers pool)
                    then pendingInboundPeers pool
                    else pendingInboundPeers pool @ [peer]),
                 nextPeerId := Suc (nextPeerId pool) \<rparr>,
          peer))"

definition addInbound :: "OpenEnv \<Rightarrow> Pool \<Rightarrow> Socket \<Rightarrow> Pool \<times> effect list" where
  "addInbound env pool sock =
     (case addInbound_add pool sock of
        (pool1, peer) \<Rightarrow>
          (case tryOpenPeer env pool1 peer None False of
             (pool2, effs) \<Rightarrow>
               (pool2 \<lparr> pendingInboundPeers :=
                          filter (\<lambda>q. peer_ident q \<noteq> peer_ident peer) (pendingInboundPeers pool2) \<rparr>,
                effs)))"

definition handleSocket :: "OpenEnv \<Rightarrow> Pool \<Rightarrow> Socket \<Rightarrow> Pool \<times> effect list" where
  "handleSocket env pool sock =
     (case remoteAddress sock of
        None \<Rightarrow> (pool, [SocketDestroy])
      | Some ip \<Rightarrow>
          if ip = [] then (pool, [SocketDestroy])
          else if isBanned pool ip then (pool, [SocketDestroy])
          else addInbound env pool sock)"

subsection \<open>tryConnectNode\<close>

text \<open>
  \<open>tryConnectNode\<close> and its two helpers call \<open>this.addOutbound\<close> once per attempt.
  They are written over any function \<open>add\<close> that plays the part of \<open>addOutbound\<close>
  on a state \<open>'s\<close>: it takes the four arguments of \<open>addOutbound\<close> and the state and
  returns the outcome and the new state. \<open>pool_addOutbound\<close> below is \<open>addOutbound\<close>
  itself in that shape.
\<close>

definition tryConnectWithLastAddress ::
  "(Address \<Rightarrow> string \<Rightarrow> bool \<Rightarrow> bool \<Rightarrow> 's \<Rightarrow> (failure + Peer) \<times> 's)
     \<Rightarrow> NodeConnectionInfo \<Rightarrow> bool \<Rightarrow> 's \<Rightarrow> bool \<times> 's" where
  "tryConnectWithLastAddress add node retryConnecting s =
     (case node_lastAddress node of
        None \<Rightarrow> (False, s)
      | Some lastAddress \<Rightarrow>
          (case add lastAddress (node_nodePubKey node) retryConnecting False s of
             (Inr peer, s') \<Rightarrow> (True, s')
           | (Inl err, s') \<Rightarrow> (False, s')))"

text \<open>The \<open>for\<close> loop of \<open>tryConnectWithAdvertisedAddresses\<close> over the sorted addresses.\<close>

fun tryAddresses ::
  "(Address \<Rightarrow> string \<Rightarrow> bool \<Rightarrow> bool \<Rightarrow> 's \<Rightarrow> (failure + Peer) \<times> 's)
     \<Rightarrow> NodeConnectionInfo \<Rightarrow> Address list \<Rightarrow> 's \<Rightarrow> bool \<times> 's" where
  "tryAddresses add node [] s = (False, s)"
| "tryAddresses add node (a # as) s =
     (if (case node_lastAddress node of None \<Rightarrow> False | Some lastAddress \<Rightarrow> areEqual a lastAddress)
      then tryAddresses add node as s
      else
        (case add a (node_nodePubKey node) False False s of
           (Inr peer, s') \<Rightarrow> (True, s')
         | (Inl err, s') \<Rightarrow> tryAddresses add node as s'))"

definition tryConnectWithAdvertisedAddresses ::
  "(Address \<Rightarrow> string \<Rightarrow> bool \<Rightarrow> bool \<Rightarrow> 's \<Rightarrow> (failure + Peer) \<times> 's)
     \<Rightarrow> NodeConnectionInfo \<Rightarrow> 's \<Rightarrow> bool \<times> 's" where
  "tryConnectWithAdvertisedAddresses add node s =
     tryAddresses add node (sortByLastConnected (node_addresses node)) s"

definition tryConnectNode ::
  "(Address \<Rightarrow> string \<Rightarrow> bool \<Rightarrow> bool \<Rightarrow> 's \<Rightarrow> (failure + Peer) \<times> 's)
     \<Rightarrow> NodeConnectionInfo \<Rightarrow> bool \<Rightarrow> 's \<Rightarrow> 's" where
  "tryConnectNode add node retryConnecting s =
     (case tryConnectWithLastAddress add node False s of
        (True, s1) \<Rightarrow> s1
      | (False, s1) \<Rightarrow>
          (case tryConnectWithAdvertisedAddresses add node s1 of
             (True, s2) \<Rightarrow> s2
           | (False, s2) \<Rightarrow>
               if retryConnecting then snd (tryConnectWithLastAddress add node True s2)
               else s2))"

text \<open>
  \<open>addOutbound\<close> as the \<open>add\<close> of \<open>tryConnectNode\<close>: the state is the pool and the
  effects so far, and \<open>envs\<close> gives the environment of the attempt on an address.
\<close>

definition pool_addOutbound ::
  "(Address \<Rightarrow> bool \<Rightarrow> OpenEnv) \<Rightarrow> Address \<Rightarrow> string \<Rightarrow> bool \<Rightarrow> bool
     \<Rightarrow> Pool \<times> effect list \<Rightarrow> (failure + Peer) \<times> (Pool \<times> effect list)" where
  "pool_addOutbound envs a k retryConnecting revokeConnectionRetries st =
     (case st of
        (pool, effs) \<Rightarrow>
          (case addOutbound (envs a retryConnecting) pool a k retryConnecting revokeConnectionRetries of
             (r, pool', effs') \<Rightarrow> (r, (pool', effs @ effs'))))"

text \<open>
  To speak about the attempts, \<open>traced add\<close> behaves as \<open>add\<close> and also writes down
  each call with its arguments and whether it succeeded.
\<close>

type_synonym attempt = "Address \<times> string \<times> bool \<times> bool"

definition traced ::
  "(Address \<Rightarrow> string \<Rightarrow> bool \<Rightarrow> bool \<Rightarrow> 's \<Rightarrow> (failure + Peer) \<times> 's)
     \<Rightarrow> Address \<Rightarrow> string \<Rightarrow> bool \<Rightarrow> bool \<Rightarrow> 's \<times> (attempt \<times> bool) list
     \<Rightarrow> (failure + Peer) \<times> ('s \<times> (attempt \<times> bool) list)" where
  "traced add a k retryConnecting revokeConnectionRetries st =
     (case st of
        (s, tr) \<Rightarrow>
          (case add a k retryConnecting revokeConnectionRetries s of
             (r, s') \<Rightarrow>
               (r, (s', tr @ [((a, k, retryConnecting, revokeConnectionRetries), \<not> isl r)]))))"

text \<open>
  The policy in the words of the specification. The plan of a node: its last address, if
  any; then the advertised addresses by \<open>lastConnected\<close> descending without those equal
  to the last address; then, if retrying was requested, the last address again with
  retrying enabled. A trace follows a plan when it makes the attempts of the plan in
  their order, stops after the first attempt that succeeds, and otherwise makes them all.
\<close>

definition last_attempt :: "NodeConnectionInfo \<Rightarrow> bool \<Rightarrow> attempt list" where
  "last_attempt node retryConnecting =
     (case node_lastAddress node of
        None \<Rightarrow> []
      | Some la \<Rightarrow> [(la, node_nodePubKey node, retryConnecting, False)])"

definition attempts_of :: "NodeConnectionInfo \<Rightarrow> Address list \<Rightarrow> attempt list" where
  "attempts_of node as =
     map (\<lambda>a. (a, node_nodePubKey node, False, False))
       (filter (\<lambda>a. case node_lastAddress node of None \<Rightarrow> True | Some la \<Rightarrow> \<not> areEqual a la) as)"

definition connection_plan :: "NodeConnectionInfo \<Rightarrow> bool \<Rightarrow> attempt list" where
  "connection_plan node retryConnecting =
     last_attempt node False
     @ attempts_of node (sortByLastConnected (node_addresses node))
     @ (if retryConnecting then last_attempt node True else [])"

fun follows :: "attempt list \<Rightarrow> (attempt \<times> bool) list \<Rightarrow> bool" where
  "follows plan [] = (plan = [])"
| "follows [] (t # tr) = False"
| "follows (c # plan) (t # tr) =
     (c = fst t \<and> (if snd t then tr = [] else follows plan tr))"

subsection \<open>handlePeerClose\<close>

definition handlePeerClose :: "Pool \<Rightarrow> Peer \<Rightarrow> Pool \<times> Peer \<times> effect list" where
  "handlePeerClose pool peer =
     (let pool1 =
            (if peer_active peer
             then (case peer_nodePubKey peer of
                     None \<Rightarrow> pool
                   | Some k \<Rightarrow> pool \<lparr> peers := AList.delete k (peers pool) \<rparr>)
             else pool)
      in if \<not> peer_active peer then (pool1, peer, [RemoveAllListeners (peer_ident peer)])
         else
           (let peer1 = peer \<lparr> peer_active := False \<rparr>;
                doesDisconnectionReasonCallForReconnection =
                  ((sentDisconnectionReason peer = None
                      \<or> sentDisconnectionReason peer = Some ResponseStalling)
                   \<and> (recvDisconnectionReason peer = None
                      \<or> recvDisconnectionReason peer = Some ResponseStalling
                      \<or> recvDisconnectionReason peer = Some AlreadyConnected
                      \<or> recvDisconnectionReason peer = Some Shutdown));
                addresses = (case peer_addresses peer of None \<Rightarrow> [] | Some as \<Rightarrow> as)
            in (pool1, peer1,
                [RemoveAllListeners (peer_ident peer), EmitPeerClose (peer_nodePubKey peer)]
                @ (case peer_nodePubKey peer of
                     None \<Rightarrow> []
                   | Some k \<Rightarrow>
                       if doesDisconnectionReasonCallForReconnection
                          \<and> \<not> peer_inbound peer
                          \<and> k \<noteq> []
                          \<and> (addresses \<noteq> [] \<or> peer_address peer \<noteq> None)
                          \<and> \<not> disconnecting pool \<and> connected pool
                       then [TryConnectNode
                               \<lparr> node_nodePubKey = k, node_addresses = addresses,
                                 node_lastAddress = peer_address peer \<rparr>
                               True]
                       else []))))"

subsection \<open>handleGetNodes\<close>

text \<open>
  \<open>this.peers.forEach\<close> with a \<open>push\<close> in its body is a left fold over the entries of
  the map; \<open>peer.sendNodes(connectedNodesInfo, reqId)\<close> is the one effect.
  \<open>handlePacket\<close> calls \<open>handleGetNodes\<close> with the peer the packet came from and
  with \<open>packet.header.id\<close> as \<open>reqId\<close>.
\<close>

definition handleGetNodes :: "Pool \<Rightarrow> Peer \<Rightarrow> string \<Rightarrow> effect list" where
  "handleGetNodes pool peer reqId =
     (let connectedNodesInfo =
            foldl (\<lambda>acc connectedPeer.
                     if peer_nodePubKey connectedPeer \<noteq> peer_nodePubKey peer
                        \<and> (case peer_addresses connectedPeer of
                              None \<Rightarrow> False
                            | Some as \<Rightarrow> length as > 0)
                     then acc @ [(peer_nodePubKey connectedPeer,
                                  (case peer_addresses connectedPeer of
                                     None \<Rightarrow> []
                                   | Some as \<Rightarrow> as))]
                     else acc)
              [] (map snd (peers pool))
      in [SendNodes (peer_ident peer) connectedNodesInfo reqId])"

subsection \<open>The promise of init and disconnect\<close>

text \<open>
  The lines of \<open>init\<close> about \<open>loadingNodesPromise\<close> (Pool.ts 192-203), one definition
  for each piece that runs without interruption: the assignment of the promise of
  \<open>nodes.load()\<close>; the callback that runs when that promise is fulfilled, up to its
  \<open>await\<close> (\<open>count\<close> is \<open>this.nodes.count\<close>); and the rest of the callback, after
  \<open>connectNodes\<close> has finished.
\<close>

definition init_loadNodes :: "Pool \<Rightarrow> Pool" where
  "init_loadNodes pool = pool \<lparr> loadingNodesPromise := Some NodesLoading \<rparr>"

definition init_loaded :: "Pool \<Rightarrow> nat \<Rightarrow> Pool \<times> effect list" where
  "init_loaded pool count =
     (if count > 0 \<and> \<not> disconnecting pool
      then (pool \<lparr> loadingNodesPromise := Some NodesConnecting \<rparr>, [ConnectNodes True True])
      else (pool \<lparr> loadingNodesPromise := None \<rparr>, []))"

definition init_connected :: "Pool \<Rightarrow> Pool" where
  "init_connected pool = pool \<lparr> loadingNodesPromise := None \<rparr>"

text \<open>
  \<open>disconnect\<close> has two \<open>await\<close>s. The environment says what the other tasks did to
  the pool during the first and the second (\<open>during_loading\<close>, \<open>during_closing\<close>),
  how a pending \<open>nodes.load()\<close> ends (\<open>nodesLoad\<close>: the number of known nodes when it
  is fulfilled, \<open>None\<close> when it is rejected), and whether the server emits its
  \<open>close\<close> event while \<open>unlisten\<close> waits for it (\<open>serverCloseEvent\<close>). A
  \<open>net.Server\<close> emits \<open>close\<close> only once \<open>close()\<close> has been called on it and its
  connections have ended.
\<close>

record DisconnectEnv =
  during_loading :: "Pool \<Rightarrow> Pool"
  during_closing :: "Pool \<Rightarrow> Pool"
  nodesLoad :: "nat option"
  serverCloseEvent :: bool

text \<open>
  \<open>unlisten\<close> calls \<open>server.close()\<close> only on a listening server, after which the
  server is not listening, and returns a promise that is resolved by the \<open>close\<close>
  event whenever there is a server, also when \<open>close()\<close> was not called, and at once
  when there is none. The result is the pool, the effects and whether that promise is
  ever resolved.
\<close>

definition unlisten :: "DisconnectEnv \<Rightarrow> Pool \<Rightarrow> Pool \<times> effect list \<times> bool" where
  "unlisten env pool =
     (if server pool \<and> serverListening pool
        then pool \<lparr> serverListening := False \<rparr> else pool,
      if server pool \<and> serverListening pool then [ServerClose] else [],
      if server pool then serverCloseEvent env else True)"

definition closePeers :: "Pool \<Rightarrow> effect list" where
  "closePeers pool = map (\<lambda>p. PeerClose (peer_ident p) (Some Shutdown)) (map snd (peers pool))"

definition closePendingConnections :: "Pool \<Rightarrow> effect list" where
  "closePendingConnections pool =
     map (\<lambda>p. PeerClose (peer_ident p) None) (map snd (pendingOutboundPeers pool))
     @ map (\<lambda>p. PeerClose (peer_ident p) None) (pendingInboundPeers pool)"

text \<open>
  \<open>if (this.loadingNodesPromise) await this.loadingNodesPromise\<close>. The promise awaited
  is the one of \<open>nodes.load()\<close>. While the load is pending \<open>disconnect\<close> waits for it;
  when it is fulfilled the callback of \<open>init\<close>, attached first, runs first
  (\<open>init_loaded\<close>), and when it is rejected the \<open>await\<close> throws. When the promise is
  already fulfilled, \<open>disconnect\<close> goes on after the other tasks that were ready have
  run, whether \<open>connectNodes\<close> has finished or not. The result is the pool with which
  \<open>disconnect\<close> goes on, \<open>None\<close> when the \<open>await\<close> throws, and the effects.
\<close>

definition disconnect_awaitLoading :: "DisconnectEnv \<Rightarrow> Pool \<Rightarrow> Pool option \<times> effect list" where
  "disconnect_awaitLoading env pool =
     (case loadingNodesPromise pool of
        None \<Rightarrow> (Some pool, [])
      | Some NodesConnecting \<Rightarrow> (Some (during_loading env pool), [AwaitLoadingNodes])
      | Some NodesLoading \<Rightarrow>
          (case nodesLoad env of
             None \<Rightarrow> (None, [AwaitLoadingNodes])
           | Some count \<Rightarrow>
               (case init_loaded (during_loading env pool) count of
                  (pool', effs) \<Rightarrow> (Some pool', AwaitLoadingNodes # effs))))"

text \<open>
  How a call of \<open>disconnect\<close> ends: it returns, leaving the pool given; or one of the
  promises it awaits is never resolved, and the pool stays as given; or it throws.
  Modelled from the spec: \<open>Peer.close\<close> (lib/p2p/Peer.ts is not part of the sources at
  hand) initiates a shutdown, and its promise is taken to be resolved.
\<close>

datatype run = Returns Pool | Hangs Pool | Rejects Pool

definition disconnect :: "DisconnectEnv \<Rightarrow> Pool \<Rightarrow> run \<times> effect list" where
  "disconnect env pool =
     (if \<not> connected pool then (Returns pool, [])
      else
        (case disconnect_awaitLoading env (pool \<lparr> disconnecting := True \<rparr>) of
           (None, awaited) \<Rightarrow>
             (Rejects (during_loading env (pool \<lparr> disconnecting := True \<rparr>)), awaited)
         | (Some closing, awaited) \<Rightarrow>
             (case unlisten env closing of
                (unlistened, effs, settles) \<Rightarrow>
                  (let calls = effs @ closePendingConnections unlistened @ closePeers unlistened;
                       left = during_closing env unlistened
                   in (if settles
                       then Returns (left \<lparr> connected := False, disconnecting := False \<rparr>)
                       else Hangs left,
                       awaited @ calls @ [AwaitClosing])))))"

subsection \<open>Concrete pools, peers and environments\<close>

text \<open>
  Two nodes, A with node pub key \<open>aa\<close> and B with \<open>bb\<close>, as in the duplicate
  connection scenario of the specification, and a third node C. \<open>pool_A\<close> and
  \<open>pool_B\<close> are the pools of A and B as \<open>init\<close> leaves them: connected, listening on
  port 8885, no peers yet.
\<close>

definition addr_A :: Address where
  "addr_A = \<lparr> host = ''192.0.2.1'', port = 8885, lastConnected = None \<rparr>"

definition addr_B :: Address where
  "addr_B = \<lparr> host = ''192.0.2.2'', port = 8885, lastConnected = None \<rparr>"

definition addr_C :: Address where
  "addr_C = \<lparr> host = ''192.0.2.7'', port = 9735, lastConnected = Some 5 \<rparr>"

definition addr_C_old :: Address where
  "addr_C_old = \<lparr> host = ''192.0.2.8'', port = 9735, lastConnected = Some 2 \<rparr>"

definition pool_A :: Pool where
  "pool_A =
     \<lparr> nodePubKey = ''aa'', pendingOutboundPeers = [], pendingInboundPeers = [],
       bannedNodes = [], loadingNodesPromise = None, peers = [],
       server = True, serverListening = True, disconnecting = False, connected = True,
       listenPort = Some 8885, config_tor = False, strict = True,
       minCompatibleVersion = ''1.0.0'', nextPeerId = 0 \<rparr>"

definition pool_B :: Pool where
  "pool_B = pool_A \<lparr> nodePubKey := ''bb'' \<rparr>"

text \<open>
  A stand-in for the semver package on the three versions used below: they are valid,
  and they compare as their strings do.
\<close>

definition example_valid :: "string \<Rightarrow> bool" where
  "example_valid v = (v = ''0.1.0'' \<or> v = ''1.0.0'' \<or> v = ''2.0.0'')"

definition example_compare :: "string \<Rightarrow> string \<Rightarrow> int" where
  "example_compare v w = (if v = w then 0 else if v < w then - 1 else 1)"

text \<open>
  The handshake with a node that presents the key \<open>k\<close> and the addresses \<open>as\<close>, and
  the environment in which both phases of that handshake succeed and no other task
  touches the pool.
\<close>

definition hello :: "string \<Rightarrow> Address list \<Rightarrow> Handshake" where
  "hello k as =
     \<lparr> hs_nodePubKey = Some k, hs_version = ''1.0.0'', hs_addresses = Some as,
       hs_connected = True \<rparr>"

definition untouched :: "Pool \<Rightarrow> Pool" where
  "untouched pool = pool"

definition env_ok :: "string \<Rightarrow> Address list \<Rightarrow> OpenEnv" where
  "env_ok k as =
     \<lparr> semver_valid = example_valid, semver_compare = example_compare,
       beginOpen = Inr (hello k as), during_beginOpen = untouched,
       completeOpen = None, during_completeOpen = untouched,
       stillConnected = True, during_wait = untouched \<rparr>"

subsection \<open>The specification's tables and conditions\<close>

text \<open>
  The admission checks of \<open>validatePeer\<close> as a table, in their order: the condition
  that rejects, the reason the peer is closed with (none where the peer is not closed),
  and the error thrown. \<open>rejection\<close> is what a failing row makes of a peer.
\<close>

definition admission_checks ::
  "(string \<Rightarrow> bool) \<Rightarrow> (string \<Rightarrow> string \<Rightarrow> int) \<Rightarrow> Pool \<Rightarrow> Peer \<Rightarrow> string
     \<Rightarrow> (bool \<times> DisconnectionReason option \<times> p2p_error) list" where
  "admission_checks sv sc pool peer k =
     [(k = nodePubKey pool, Some ConnectedToSelf, ATTEMPTED_CONNECTION_TO_SELF),
      (\<not> sv (peer_version peer), Some MalformedVersion,
         MALFORMED_VERSION (peer_address peer) (peer_version peer)),
      (sc (peer_version peer) (minCompatibleVersion pool) = - 1, Some IncompatibleProtocolVersion,
         INCOMPATIBLE_VERSION (peer_address peer) (minCompatibleVersion pool) (peer_version peer)),
      (\<not> connected pool, Some NotAcceptingConnections, POOL_CLOSED),
      (isBanned pool k, Some Banned, NODE_IS_BANNED k),
      (has (peers pool) k, Some AlreadyConnected, NODE_ALREADY_CONNECTED k (peer_address peer)),
      (\<not> peer_connected peer, None, NOT_CONNECTED k)]"

definition rejection ::
  "Peer \<Rightarrow> (bool \<times> DisconnectionReason option \<times> p2p_error) \<Rightarrow> (failure + string) \<times> effect list" where
  "rejection peer check =
     (Inl (Thrown (snd (snd check))),
      (case fst (snd check) of
         None \<Rightarrow> []
       | Some reason \<Rightarrow> [PeerClose (peer_ident peer) (Some reason)]))"

text \<open>The preconditions of \<open>addOutbound\<close> as a table, in their order, with their errors.\<close>

definition addOutbound_preconditions ::
  "Pool \<Rightarrow> Address \<Rightarrow> string \<Rightarrow> bool \<Rightarrow> (bool \<times> p2p_error) list" where
  "addOutbound_preconditions pool a k revokeConnectionRetries =
     [(k = nodePubKey pool \<or> addressIsSelf pool a, ATTEMPTED_CONNECTION_TO_SELF),
      (disconnecting pool \<or> \<not> connected pool, POOL_CLOSED),
      (\<not> config_tor pool \<and> indexOf (host a) ''.onion'' \<noteq> - 1, NODE_TOR_ADDRESS k a),
      (isBanned pool k, NODE_IS_BANNED k),
      (has (peers pool) k, NODE_ALREADY_CONNECTED k (Some a)),
      (has (pendingOutboundPeers pool) k \<and> \<not> revokeConnectionRetries, ALREADY_CONNECTING k)]"

text \<open>The condition for a reconnection in the words of section 4.4.\<close>

definition reconnection_wanted :: "Pool \<Rightarrow> Peer \<Rightarrow> bool" where
  "reconnection_wanted pool peer =
     ((sentDisconnectionReason peer = None \<or> sentDisconnectionReason peer = Some ResponseStalling)
      \<and> recvDisconnectionReason peer
          \<in> {None, Some ResponseStalling, Some AlreadyConnected, Some Shutdown}
      \<and> \<not> peer_inbound peer
      \<and> (\<exists>k. peer_nodePubKey peer = Some k \<and> k \<noteq> [])
      \<and> ((\<exists>as. peer_addresses peer = Some as \<and> as \<noteq> []) \<or> peer_address peer \<noteq> None)
      \<and> connected pool \<and> \<not> disconnecting pool)"

text \<open>
  What the admission of a connection needs, in the words of sections 4.2 and 4.4. The
  resolution of duplicates closes a new connection to the key \<open>k\<close> when \<open>peers\<close> has
  an entry for \<open>k\<close> and either our own key is the higher one or the existing peer is
  still connected after the wait. A peer is admitted when the pool is open (connected
  and not disconnecting), both phases of the handshake succeed, \<open>validatePeer\<close>
  accepts the peer on the pool as it is after the first phase, and the resolution of
  duplicates does not close the connection on the pool as it is after the second.
\<close>

definition duplicate_closes :: "OpenEnv \<Rightarrow> Pool \<Rightarrow> string \<Rightarrow> bool" where
  "duplicate_closes env pool k =
     (has (peers pool) k \<and> (nodePubKey pool > k \<or> stillConnected env))"

definition admission_conditions :: "OpenEnv \<Rightarrow> Pool \<Rightarrow> Peer \<Rightarrow> bool" where
  "admission_conditions env pool peer =
     (connected pool \<and> \<not> disconnecting pool
      \<and> (\<exists>hs k.
            beginOpen env = Inr hs \<and> completeOpen env = None
            \<and> fst (validatePeer (semver_valid env) (semver_compare env)
                     (during_beginOpen env pool) (after_hello peer hs)) = Inr k
            \<and> \<not> duplicate_closes env (during_completeOpen env (during_beginOpen env pool)) k))"

text \<open>
  The number of entries an association list has for a key, the identities of the peers
  in a map, and what it means that the other tasks running during an \<open>await\<close> do not
  put the \<open>Peer\<close> object with the identity \<open>i\<close> into \<open>peers\<close>.
\<close>

definition entries_for :: "(string \<times> 'a) list \<Rightarrow> string \<Rightarrow> nat" where
  "entries_for m k = length (filter (\<lambda>e. fst e = k) m)"

definition peer_idents :: "(string \<times> Peer) list \<Rightarrow> nat list" where
  "peer_idents m = map (\<lambda>e. peer_ident (snd e)) m"

definition keeps_out :: "nat \<Rightarrow> (Pool \<Rightarrow> Pool) \<Rightarrow> bool" where
  "keeps_out i during = (\<forall>pool. i \<notin> set (peer_idents (peers pool)) \<longrightarrow>
                                 i \<notin> set (peer_idents (peers (during pool))))"

subsection \<open>Concrete states of the two-node race and of a pool with peers\<close>

text \<open>An admitted peer: the object as the handshake and \<open>openPeer\<close> leave it.\<close>

definition open_peer :: "nat \<Rightarrow> bool \<Rightarrow> Address \<Rightarrow> string \<Rightarrow> Address list \<Rightarrow> Peer" where
  "open_peer i inbound a k as =
     \<lparr> peer_ident = i, peer_inbound = inbound, peer_address = Some a,
       peer_nodePubKey = Some k, peer_version = ''1.0.0'', peer_addresses = Some as,
       peer_active = True, peer_connected = True,
       sentDisconnectionReason = None, recvDisconnectionReason = None \<rparr>"

text \<open>
  B dials A: \<open>pool_B_pending\<close> is B's pool after \<open>addOutbound\<close> has inserted the new
  peer into \<open>pendingOutboundPeers\<close>, \<open>pool_B_both\<close> is the pool after \<open>openPeer\<close> has
  admitted that peer. \<open>sock_A\<close> is the socket B accepts when A dials B at the same
  time; \<open>admit_outbound_A\<close> is the admission of B's own connection to A, and
  \<open>env_race\<close> the environment of the open attempt on \<open>sock_A\<close> in which that
  admission happens while the attempt awaits \<open>completeOpen\<close>.
\<close>

definition pool_B_pending :: Pool where
  "pool_B_pending =
     pool_B \<lparr> pendingOutboundPeers := [(''aa'', newPeer 0 addr_A)], nextPeerId := 1 \<rparr>"

definition pool_B_both :: Pool where
  "pool_B_both = pool_B_pending \<lparr> peers := [(''aa'', open_peer 0 False addr_A ''aa'' [addr_A])] \<rparr>"

definition sock_A :: Socket where
  "sock_A = \<lparr> remoteAddress = Some ''192.0.2.1'', remotePort = 40000 \<rparr>"

definition sock_gone :: Socket where
  "sock_gone = \<lparr> remoteAddress = None, remotePort = 0 \<rparr>"

definition admit_outbound_A :: "Pool \<Rightarrow> Pool" where
  "admit_outbound_A pool =
     fst (snd (openPeer_set pool
                 ((open_peer 0 False addr_A ''aa'' [addr_A]) \<lparr> peer_active := False \<rparr>) ''aa''))"

definition env_race :: OpenEnv where
  "env_race = (env_ok ''aa'' [addr_A]) \<lparr> during_completeOpen := admit_outbound_A \<rparr>"

text \<open>
  The same race seen from A, whose key is the lower one: A has admitted its own
  connection to B and waits with the second connection; \<open>env_closed\<close> is the
  environment in which the admitted peer closes within the interval (its
  \<open>handlePeerClose\<close> runs during the wait), \<open>env_ok\<close> the one in which it does not.
\<close>

definition pool_A_connected :: Pool where
  "pool_A_connected =
     pool_A \<lparr> peers := [(''bb'', open_peer 0 False addr_B ''bb'' [addr_B])], nextPeerId := 2 \<rparr>"

definition close_existing_B :: "Pool \<Rightarrow> Pool" where
  "close_existing_B pool = fst (handlePeerClose pool (open_peer 0 False addr_B ''bb'' [addr_B]))"

definition env_closed :: OpenEnv where
  "env_closed =
     (env_ok ''bb'' [addr_B]) \<lparr> stillConnected := False, during_wait := close_existing_B \<rparr>"

text \<open>
  A pool of B with three peers (A with one address, C with one, D with none), one
  pending outbound and one pending inbound connection; a closed pool in which C is
  banned; the environment of \<open>disconnect\<close> in which no other task touches the pool.
\<close>

definition pool_B_peers :: Pool where
  "pool_B_peers =
     pool_B \<lparr> peers := [(''aa'', open_peer 0 False addr_A ''aa'' [addr_A]),
                         (''cc'', open_peer 1 True addr_C ''cc'' [addr_C]),
                         (''dd'', open_peer 2 True addr_C_old ''dd'' [])],
              pendingOutboundPeers := [(''ee'', newPeer 3 addr_C_old)],
              pendingInboundPeers :=
                [fromInbound 4 \<lparr> remoteAddress = Some ''192.0.2.9'', remotePort = 40000 \<rparr>],
              nextPeerId := 5 \<rparr>"

definition pool_closed_banned :: Pool where
  "pool_closed_banned = pool_A \<lparr> bannedNodes := [''cc''], connected := False \<rparr>"

definition env_quiet :: DisconnectEnv where
  "env_quiet = \<lparr> during_loading = untouched, during_closing = untouched,
                 nodesLoad = Some 3, serverCloseEvent = True \<rparr>"

text \<open>
  B's pool while \<open>nodes.load()\<close> is pending and while the bulk reconnection to three
  known nodes is running; the pool of a node whose server has stopped listening; and the
  environment in which no \<open>close\<close> event of the server arrives.
\<close>

definition pool_B_loading :: Pool where
  "pool_B_loading = init_loadNodes pool_B_peers"

definition pool_B_reconnecting :: Pool where
  "pool_B_reconnecting = fst (init_loaded pool_B_loading 3)"

definition pool_B_deaf :: Pool where
  "pool_B_deaf = pool_B_peers \<lparr> serverListening := False \<rparr>"

definition env_no_close :: DisconnectEnv where
  "env_no_close = env_quiet \<lparr> serverCloseEvent := False \<rparr>"

text \<open>
  Node C as A knows it: last connected through \<open>addr_C_old\<close>, which no longer answers,
  and advertising both addresses. \<open>envs_C\<close> gives each attempt its environment.
\<close>

definition node_C :: NodeConnectionInfo where
  "node_C = \<lparr> node_nodePubKey = ''cc'', node_addresses = [addr_C_old, addr_C],
              node_lastAddress = Some addr_C_old \<rparr>"

definition env_down :: OpenEnv where
  "env_down = (env_ok ''cc'' []) \<lparr> beginOpen := Inl (HANDSHAKE_FAILED ''ECONNREFUSED'') \<rparr>"

definition envs_C :: "Address \<Rightarrow> bool \<Rightarrow> OpenEnv" where
  "envs_C a retryConnecting =
     (if a = addr_C then env_ok ''cc'' [addr_C_old, addr_C] else env_down)"

section \<open>Properties\<close>

subsection \<open>Facts about the helpers\<close>

lemmas example_defs =
  pool_A_def pool_B_def pool_B_pending_def pool_B_both_def pool_A_connected_def
  pool_B_peers_def pool_closed_banned_def addr_A_def addr_B_def addr_C_def addr_C_old_def
  open_peer_def newPeer_def fromInbound_def sock_A_def sock_gone_def
  env_ok_def env_race_def env_closed_def env_down_def envs_C_def env_quiet_def hello_def
  untouched_def admit_outbound_A_def close_existing_B_def node_C_def
  example_valid_def example_compare_def pool_B_loading_def pool_B_reconnecting_def
  pool_B_deaf_def env_no_close_def init_loadNodes_def init_loaded_def

lemmas pool_defs =
  addOutbound_def addOutbound_begin_def addOutbound_insert_def openPeer_def openPeer_try_def
  openPeer_catch_def openPeer_admit_def openPeer_set_def validatePeer_def tryOpenPeer_def
  addInbound_def addInbound_add_def handleSocket_def handlePeerClose_def
  addressIsSelf_def indexOf_def isBanned_def has_def areEqual_def after_hello_def
  sortByLastConnected_def lastConnectedTime_def Let_def

lemma startsWith_append: "startsWith (pat @ post) pat"
  by (induction pat) auto

lemma indexOf_from_found: "indexOf_from i (pre @ pat @ post) pat \<noteq> - 1"
proof (induction pre arbitrary: i)
  case Nil
  show ?case
  proof (cases "pat @ post")
    case Nil
    then show ?thesis by simp
  next
    case (Cons c cs)
    have "startsWith (c # cs) pat"
      using startsWith_append [of pat post] Cons by simp
    then show ?thesis using Cons by simp
  qed
next
  case (Cons c pre)
  then show ?case by simp
qed

lemma has_delete: "\<not> has (AList.delete k m) k"
  by (simp add: has_def AList.delete_eq map_of_eq_None_iff image_iff)

lemma entries_for_update:
  "distinct (map fst m) \<Longrightarrow> entries_for (AList.update k v m) k = 1"
proof (induction m)
  case Nil
  then show ?case by (simp add: entries_for_def)
next
  case (Cons e m)
  show ?case
  proof (cases "fst e = k")
    case True
    with Cons.prems have "k \<notin> fst ` set m" by auto
    then have "filter (\<lambda>e. fst e = k) m = []" by (auto simp: filter_empty_conv)
    with True show ?thesis by (simp add: entries_for_def)
  next
    case False
    with Cons show ?thesis by (simp add: entries_for_def)
  qed
qed

lemma entries_for_has:
  "distinct (map fst m) \<Longrightarrow> has m k \<Longrightarrow> entries_for m k = 1"
proof (induction m)
  case Nil
  then show ?case by (simp add: has_def)
next
  case (Cons e m)
  show ?case
  proof (cases "fst e = k")
    case True
    with Cons.prems have "k \<notin> fst ` set m" by auto
    then have "filter (\<lambda>e. fst e = k) m = []" by (auto simp: filter_empty_conv)
    with True show ?thesis by (simp add: entries_for_def)
  next
    case False
    with Cons.prems have "has m k" by (cases e) (auto simp: has_def)
    with False Cons show ?thesis by (simp add: entries_for_def)
  qed
qed

lemma map_of_ident:
  "map_of m k = Some p \<Longrightarrow> peer_ident p \<in> set (peer_idents m)"
  by (auto simp: peer_idents_def dest!: map_of_SomeD intro!: image_eqI [where x = "(k, p)"])

lemma foldl_push:
  "foldl (\<lambda>acc x. if P x then acc @ [f x] else acc) acc xs = acc @ map f (filter P xs)"
  by (induction xs arbitrary: acc) auto

lemma sortByLastConnected_descending:
  "sorted_wrt (\<lambda>a b. lastConnectedTime b \<le> lastConnectedTime a) (sortByLastConnected as)"
proof -
  have "sorted (map (\<lambda>a. - int (lastConnectedTime a)) (sortByLastConnected as))"
    by (simp add: sortByLastConnected_def)
  then show ?thesis by (simp add: sorted_map)
qed

subsection \<open>Duplicate connections\<close>

text \<open>
  C1 as stated does not hold. B (key \<open>bb\<close>, the higher one) has dialled A and accepts
  A's socket at the same time. The inbound attempt passes \<open>validatePeer\<close>, B's own
  connection is admitted while the attempt awaits \<open>completeOpen\<close>, and B then closes the
  inbound connection, the one A initiated, with AlreadyConnected; the connection B
  initiated stays in \<open>peers\<close>. The code compares the two keys and never looks at who
  initiated a connection.
\<close>

theorem initiator_counterexample:
  "''aa'' < nodePubKey pool_B_pending
   \<and> peer_inbound (fromInbound 1 sock_A)
   \<and> openPeer env_race pool_B_pending (fromInbound 1 sock_A) None False
       = (Inl (Thrown (NODE_ALREADY_CONNECTED ''aa''
                 (Some \<lparr> host = ''192.0.2.1'', port = 40000, lastConnected = None \<rparr>))),
          pool_B_both, [PeerClose 1 (Some AlreadyConnected)])
   \<and> map_of (peers pool_B_both) ''aa'' = Some (open_peer 0 False addr_A ''aa'' [addr_A])
   \<and> \<not> peer_inbound (open_peer 0 False addr_A ''aa'' [addr_A])"
  by (simp add: pool_defs example_defs)

text \<open>
  C1, amended. When the handshake of a new connection has completed and \<open>peers\<close>
  already has an entry for the remote key \<open>k\<close>: a node whose own key is higher than
  \<open>k\<close> closes the new connection with AlreadyConnected, throws NODE_ALREADY_CONNECTED
  and leaves \<open>peers\<close> as it is, with its one entry for \<open>k\<close>; a node whose own key is
  not higher waits, and if the existing peer has not closed within the interval it
  closes the new connection in the same way, otherwise the new connection becomes the
  entry for \<open>k\<close>, the only one, and no other key is touched. Who initiated either
  connection plays no part.
\<close>

theorem duplicate_resolution:
  "has (peers pool) k \<longrightarrow>
     (nodePubKey pool > k \<longrightarrow>
        openPeer_admit env pool peer k
          = (Inl (Thrown (NODE_ALREADY_CONNECTED k (peer_address peer))), pool,
             [PeerClose (peer_ident peer) (Some AlreadyConnected)])
        \<and> (distinct (map fst (peers pool)) \<longrightarrow> entries_for (peers pool) k = 1))
     \<and> (\<not> nodePubKey pool > k \<and> stillConnected env \<longrightarrow>
          openPeer_admit env pool peer k
            = (Inl (Thrown (NODE_ALREADY_CONNECTED k (peer_address peer))), during_wait env pool,
               [PeerClose (peer_ident peer) (Some AlreadyConnected)]))
     \<and> (\<not> nodePubKey pool > k \<and> \<not> stillConnected env \<longrightarrow>
          (\<exists>pool'.
             openPeer_admit env pool peer k
               = (Inr (peer \<lparr> peer_active := True \<rparr>), pool', [HandleOpenedPeer (peer_ident peer)])
             \<and> map_of (peers pool') k = Some (peer \<lparr> peer_active := True \<rparr>)
             \<and> (\<forall>k'. k' \<noteq> k \<longrightarrow> map_of (peers pool') k' = map_of (peers (during_wait env pool)) k')
             \<and> (distinct (map fst (peers (during_wait env pool))) \<longrightarrow>
                  entries_for (peers pool') k = 1)))"
  by (auto simp: openPeer_admit_def openPeer_set_def Let_def update_Some_unfold update_conv'
        entries_for_update entries_for_has)

theorem duplicate_resolution_witness:
  "openPeer_admit env_race pool_B_both
       ((open_peer 1 True addr_A ''aa'' [addr_A]) \<lparr> peer_active := False \<rparr>) ''aa''
     = (Inl (Thrown (NODE_ALREADY_CONNECTED ''aa'' (Some addr_A))), pool_B_both,
        [PeerClose 1 (Some AlreadyConnected)])
   \<and> entries_for (peers pool_B_both) ''aa'' = 1
   \<and> openPeer_admit (env_ok ''bb'' [addr_B]) pool_A_connected
       ((open_peer 1 True addr_B ''bb'' [addr_B]) \<lparr> peer_active := False \<rparr>) ''bb''
     = (Inl (Thrown (NODE_ALREADY_CONNECTED ''bb'' (Some addr_B))), pool_A_connected,
        [PeerClose 1 (Some AlreadyConnected)])
   \<and> openPeer_admit env_closed pool_A_connected
       ((open_peer 1 True addr_B ''bb'' [addr_B]) \<lparr> peer_active := False \<rparr>) ''bb''
     = (Inr (open_peer 1 True addr_B ''bb'' [addr_B]),
        pool_A_connected \<lparr> peers := [(''bb'', open_peer 1 True addr_B ''bb'' [addr_B])] \<rparr>,
        [HandleOpenedPeer 1])"
  using duplicate_resolution [where pool = pool_B_both and k = "''aa''" and env = env_race
      and peer = "(open_peer 1 True addr_A ''aa'' [addr_A]) \<lparr> peer_active := False \<rparr>"]
    duplicate_resolution [where pool = pool_A_connected and k = "''bb''"
      and env = "env_ok ''bb'' [addr_B]"
      and peer = "(open_peer 1 True addr_B ''bb'' [addr_B]) \<lparr> peer_active := False \<rparr>"]
    duplicate_resolution [where pool = pool_A_connected and k = "''bb''" and env = env_closed
      and peer = "(open_peer 1 True addr_B ''bb'' [addr_B]) \<lparr> peer_active := False \<rparr>"]
  by (simp add: pool_defs example_defs entries_for_def)

subsection \<open>Admission checks\<close>

text \<open>
  C2 as stated does not hold for the last check. A peer that passes the first six checks
  and whose socket is already broken is rejected with NOT_CONNECTED, but
  \<open>validatePeer\<close> does not close it: there is no call of \<open>peer.close\<close> and so no
  DisconnectionReason.
\<close>

theorem validatePeer_no_close_counterexample:
  "validatePeer example_valid example_compare pool_B
     ((open_peer 0 True addr_A ''aa'' [addr_A]) \<lparr> peer_active := False, peer_connected := False \<rparr>)
   = (Inl (Thrown (NOT_CONNECTED ''aa'')), [])"
  by (simp add: pool_defs example_defs)

text \<open>
  C2, amended. For a peer whose node pub key is known after the first phase of the
  handshake, \<open>validatePeer\<close> applies the seven checks of \<open>admission_checks\<close> in their
  order (self, malformed version, incompatible version, pool disconnected, banned,
  duplicate, socket broken); the first one that fails decides: the first six close the
  peer with ConnectedToSelf, MalformedVersion, IncompatibleProtocolVersion,
  NotAcceptingConnections, Banned and AlreadyConnected, which are six different reasons,
  and throw the error of their row; the seventh throws NOT_CONNECTED without closing the
  peer. When no check fails the peer is accepted and nothing is closed.
\<close>

theorem validatePeer_first_failing_check:
  "peer_nodePubKey peer = Some k \<and> k \<noteq> [] \<longrightarrow>
     validatePeer sv sc pool peer =
       (case find fst (admission_checks sv sc pool peer k) of
          None \<Rightarrow> (Inr k, [])
        | Some check \<Rightarrow> rejection peer check)
     \<and> distinct (map (fst \<circ> snd) (admission_checks sv sc pool peer k))"
  by (simp add: validatePeer_def admission_checks_def rejection_def)

theorem validatePeer_first_failing_check_witness:
  "validatePeer example_valid example_compare (pool_B \<lparr> bannedNodes := [''aa''] \<rparr>)
      ((open_peer 0 True addr_A ''aa'' [addr_A]) \<lparr> peer_version := ''0.1.0'' \<rparr>)
     = (Inl (Thrown (INCOMPATIBLE_VERSION (Some addr_A) ''1.0.0'' ''0.1.0'')),
        [PeerClose 0 (Some IncompatibleProtocolVersion)])
   \<and> validatePeer example_valid example_compare (pool_B \<lparr> bannedNodes := [''aa''] \<rparr>)
      (open_peer 0 True addr_A ''aa'' [addr_A])
     = (Inl (Thrown (NODE_IS_BANNED ''aa'')), [PeerClose 0 (Some Banned)])
   \<and> validatePeer example_valid example_compare pool_B
      ((open_peer 0 True addr_A ''aa'' [addr_A]) \<lparr> peer_connected := False \<rparr>)
     = (Inl (Thrown (NOT_CONNECTED ''aa'')), [])
   \<and> validatePeer example_valid example_compare pool_B (open_peer 0 True addr_A ''aa'' [addr_A])
     = (Inr ''aa'', [])"
  using validatePeer_first_failing_check [where k = "''aa''" and sv = example_valid
      and sc = example_compare and pool = "pool_B \<lparr> bannedNodes := [''aa''] \<rparr>"
      and peer = "(open_peer 0 True addr_A ''aa'' [addr_A]) \<lparr> peer_version := ''0.1.0'' \<rparr>"]
    validatePeer_first_failing_check [where k = "''aa''" and sv = example_valid
      and sc = example_compare and pool = "pool_B \<lparr> bannedNodes := [''aa''] \<rparr>"
      and peer = "open_peer 0 True addr_A ''aa'' [addr_A]"]
    validatePeer_first_failing_check [where k = "''aa''" and sv = example_valid
      and sc = example_compare and pool = pool_B
      and peer = "(open_peer 0 True addr_A ''aa'' [addr_A]) \<lparr> peer_connected := False \<rparr>"]
    validatePeer_first_failing_check [where k = "''aa''" and sv = example_valid
      and sc = example_compare and pool = pool_B
      and peer = "open_peer 0 True addr_A ''aa'' [addr_A]"]
  by (simp add: admission_checks_def rejection_def isBanned_def has_def example_defs)

subsection \<open>Reconnection after a close\<close>

text \<open>
  C3. When an active peer closes, \<open>handlePeerClose\<close> starts a reconnection exactly
  when the sent reason is absent or ResponseStalling, the received reason is absent or
  one of ResponseStalling, AlreadyConnected and Shutdown, the peer was outbound, its node
  pub key is known, it has an advertised address or the address it was connected to, and
  the pool is connected and not disconnecting. The reconnection is the call
  \<open>tryConnectNode\<close> with the peer's key and addresses and \<open>retryConnecting = true\<close>;
  when the condition fails no such call is made.
\<close>

theorem handlePeerClose_reconnects:
  "peer_active peer \<Longrightarrow>
     (reconnection_wanted pool peer \<longrightarrow>
        (\<exists>k. peer_nodePubKey peer = Some k \<and>
           snd (snd (handlePeerClose pool peer)) =
             [RemoveAllListeners (peer_ident peer), EmitPeerClose (Some k),
              TryConnectNode
                \<lparr> node_nodePubKey = k,
                  node_addresses = (case peer_addresses peer of None \<Rightarrow> [] | Some as \<Rightarrow> as),
                  node_lastAddress = peer_address peer \<rparr>
                True]))
     \<and> (\<not> reconnection_wanted pool peer \<longrightarrow>
          snd (snd (handlePeerClose pool peer)) =
            [RemoveAllListeners (peer_ident peer), EmitPeerClose (peer_nodePubKey peer)])"
  by (auto simp: handlePeerClose_def reconnection_wanted_def Let_def split: option.splits)

theorem handlePeerClose_reconnects_witness:
  "snd (snd (handlePeerClose pool_B_peers
        ((open_peer 0 False addr_A ''aa'' [addr_A]) \<lparr> recvDisconnectionReason := Some Shutdown \<rparr>)))
     = [RemoveAllListeners 0, EmitPeerClose (Some ''aa''),
        TryConnectNode \<lparr> node_nodePubKey = ''aa'', node_addresses = [addr_A],
                         node_lastAddress = Some addr_A \<rparr> True]
   \<and> snd (snd (handlePeerClose pool_B_peers
        ((open_peer 0 False addr_A ''aa'' [addr_A]) \<lparr> recvDisconnectionReason := Some Banned \<rparr>)))
     = [RemoveAllListeners 0, EmitPeerClose (Some ''aa'')]"
  using handlePeerClose_reconnects [where pool = pool_B_peers
      and peer = "(open_peer 0 False addr_A ''aa'' [addr_A]) \<lparr> recvDisconnectionReason := Some Shutdown \<rparr>"]
    handlePeerClose_reconnects [where pool = pool_B_peers
      and peer = "(open_peer 0 False addr_A ''aa'' [addr_A]) \<lparr> recvDisconnectionReason := Some Banned \<rparr>"]
  by (simp add: reconnection_wanted_def example_defs)

subsection \<open>Pending outbound connections\<close>

lemma validatePeer_key:
  "validatePeer sv sc pool peer = (Inr k, effs) \<Longrightarrow> peer_nodePubKey peer = Some k"
  by (auto simp: validatePeer_def split: option.splits if_splits)

lemma openPeer_set_result:
  "openPeer_set pool peer k = (r, pool', effs) \<Longrightarrow>
     r = Inr (peer \<lparr> peer_active := True \<rparr>)
     \<and> map_of (peers pool') k = Some (peer \<lparr> peer_active := True \<rparr>)"
  by (auto simp: openPeer_set_def Let_def update_Some_unfold)

lemma openPeer_admit_success:
  "openPeer_admit env pool peer k = (Inr p', pool', effs) \<Longrightarrow>
     p' = peer \<lparr> peer_active := True \<rparr> \<and> map_of (peers pool') k = Some p'"
  by (auto simp: openPeer_admit_def Let_def split: if_splits dest: openPeer_set_result)

lemma openPeer_try_success:
  "openPeer_try env pool peer expected = (Inr (peer1, k), pool1, effs) \<Longrightarrow>
     peer_nodePubKey peer1 = Some k \<and> peer_ident peer1 = peer_ident peer
     \<and> (\<exists>hs. beginOpen env = Inr hs) \<and> completeOpen env = None"
  by (auto simp: openPeer_try_def after_hello_def Let_def
      split: sum.splits prod.splits option.splits dest: validatePeer_key)

lemma openPeer_success:
  assumes "openPeer env pool peer expected retry = (Inr p', pool', effs)"
  shows "\<exists>k. peer_nodePubKey p' = Some k \<and> map_of (peers pool') k = Some p'
       \<and> peer_ident p' = peer_ident peer \<and> peer_active p'
       \<and> (\<exists>hs. beginOpen env = Inr hs) \<and> completeOpen env = None"
proof -
  from assms obtain peer1 k pool1 effs1 where
    t: "openPeer_try env pool peer expected = (Inr (peer1, k), pool1, effs1)"
    by (auto simp: openPeer_def split: if_splits sum.splits prod.splits)
  with assms obtain effs2 where
    ad: "openPeer_admit env pool1 peer1 k = (Inr p', pool', effs2)"
    by (auto simp: openPeer_def split: if_splits sum.splits prod.splits)
  from openPeer_try_success [OF t] openPeer_admit_success [OF ad]
  show ?thesis by auto
qed

text \<open>
  C4 as stated does not hold. B dials A: \<open>addOutbound\<close> inserts the key of A into
  \<open>pendingOutboundPeers\<close>, \<open>openPeer\<close> admits the peer into \<open>peers\<close> and returns, and
  in the pool it returns the key is in both maps. The key leaves
  \<open>pendingOutboundPeers\<close> only in the \<open>finally\<close> block that runs after \<open>openPeer\<close>.
\<close>

theorem pending_and_open_counterexample:
  "addOutbound_begin pool_B addr_A ''aa'' False = Inr (pool_B_pending, newPeer 0 addr_A, [])
   \<and> openPeer (env_ok ''aa'' [addr_A]) pool_B_pending (newPeer 0 addr_A) (Some ''aa'') False
       = (Inr (open_peer 0 False addr_A ''aa'' [addr_A]), pool_B_both, [HandleOpenedPeer 0])
   \<and> has (peers pool_B_both) ''aa'' \<and> has (pendingOutboundPeers pool_B_both) ''aa''"
  by (simp add: pool_defs example_defs)

text \<open>
  C4, amended. \<open>addOutbound\<close> inserts a key into \<open>pendingOutboundPeers\<close> only after it
  has checked that the key is not in \<open>peers\<close>, so right after the insertion the key is
  pending and not in \<open>peers\<close>. The key is removed from \<open>pendingOutboundPeers\<close> when the
  open attempt has ended, whether it succeeded or failed, and that is after, not before,
  the peer has been admitted into \<open>peers\<close>: when \<open>addOutbound\<close> has returned
  successfully the peer is in \<open>peers\<close> under its key and the key dialled is not
  pending. An \<open>addOutbound\<close> that fails one of its checks leaves the pool as it is.
\<close>

theorem addOutbound_pending_lifetime:
  "(addOutbound_begin pool a k revoke = Inr (inserted, peer, effs) \<longrightarrow>
      \<not> has (peers pool) k \<and> \<not> has (peers inserted) k
      \<and> map_of (pendingOutboundPeers inserted) k = Some peer)
   \<and> (addOutbound env pool a k retry revoke = (Inr peer', final, effs') \<longrightarrow>
        (\<exists>k'. peer_nodePubKey peer' = Some k' \<and> map_of (peers final) k' = Some peer')
        \<and> \<not> has (peers pool) k)
   \<and> (addOutbound env pool a k retry revoke = (r, final, effs') \<longrightarrow>
        (\<forall>e. addOutbound_begin pool a k revoke = Inl e \<longrightarrow> final = pool)
        \<and> ((\<exists>st. addOutbound_begin pool a k revoke = Inr st) \<longrightarrow>
              \<not> has (pendingOutboundPeers final) k))"
proof -
  have one: "addOutbound_begin pool a k revoke = Inr (inserted, peer, effs) \<longrightarrow>
      \<not> has (peers pool) k \<and> \<not> has (peers inserted) k
      \<and> map_of (pendingOutboundPeers inserted) k = Some peer"
    by (auto simp: addOutbound_begin_def addOutbound_insert_def Let_def update_Some_unfold
        split: if_splits option.splits)
  have two: "addOutbound env pool a k retry revoke = (Inr peer', final, effs') \<longrightarrow>
        (\<exists>k'. peer_nodePubKey peer' = Some k' \<and> map_of (peers final) k' = Some peer')
        \<and> \<not> has (peers pool) k"
  proof
    assume a: "addOutbound env pool a k retry revoke = (Inr peer', final, effs')"
    then obtain pool1 peer effs1 where
      b: "addOutbound_begin pool a k revoke = Inr (pool1, peer, effs1)"
      by (auto simp: addOutbound_def split: sum.splits prod.splits)
    with a obtain pool2 effs2 where
      o: "openPeer env pool1 peer (Some k) retry = (Inr peer', pool2, effs2)"
      and f: "final = pool2 \<lparr> pendingOutboundPeers := AList.delete k (pendingOutboundPeers pool2) \<rparr>"
      by (auto simp: addOutbound_def split: sum.splits prod.splits)
    from openPeer_success [OF o] f
    have "\<exists>k'. peer_nodePubKey peer' = Some k' \<and> map_of (peers final) k' = Some peer'"
      by auto
    moreover from b have "\<not> has (peers pool) k"
      by (auto simp: addOutbound_begin_def split: if_splits)
    ultimately show "(\<exists>k'. peer_nodePubKey peer' = Some k' \<and> map_of (peers final) k' = Some peer')
        \<and> \<not> has (peers pool) k" by simp
  qed
  have three: "addOutbound env pool a k retry revoke = (r, final, effs') \<longrightarrow>
        (\<forall>e. addOutbound_begin pool a k revoke = Inl e \<longrightarrow> final = pool)
        \<and> ((\<exists>st. addOutbound_begin pool a k revoke = Inr st) \<longrightarrow>
              \<not> has (pendingOutboundPeers final) k)"
    by (auto simp: addOutbound_def has_delete split: sum.splits prod.splits)
  from one two three show ?thesis by blast
qed

theorem addOutbound_pending_lifetime_witness:
  "addOutbound_begin pool_B addr_A ''aa'' False = Inr (pool_B_pending, newPeer 0 addr_A, [])
   \<and> map_of (pendingOutboundPeers pool_B_pending) ''aa'' = Some (newPeer 0 addr_A)
   \<and> addOutbound (env_ok ''aa'' [addr_A]) pool_B addr_A ''aa'' False False
       = (Inr (open_peer 0 False addr_A ''aa'' [addr_A]),
          pool_B_both \<lparr> pendingOutboundPeers := [] \<rparr>, [HandleOpenedPeer 0])
   \<and> map_of (peers (pool_B_both \<lparr> pendingOutboundPeers := [] \<rparr>)) ''aa''
       = Some (open_peer 0 False addr_A ''aa'' [addr_A])
   \<and> addOutbound (env_ok ''aa'' [addr_A]) pool_B_pending addr_A ''aa'' False False
       = (Inl (Thrown (ALREADY_CONNECTING ''aa'')), pool_B_pending, [])"
  using addOutbound_pending_lifetime [where pool = pool_B and a = addr_A and k = "''aa''"
      and revoke = False and inserted = pool_B_pending and peer = "newPeer 0 addr_A"
      and effs = "[]" and env = "env_ok ''aa'' [addr_A]" and retry = False
      and peer' = "open_peer 0 False addr_A ''aa'' [addr_A]"
      and final = "pool_B_both \<lparr> pendingOutboundPeers := [] \<rparr>"
      and effs' = "[HandleOpenedPeer 0]"
      and r = "Inr (open_peer 0 False addr_A ''aa'' [addr_A])"]
    addOutbound_pending_lifetime [where pool = pool_B_pending and a = addr_A and k = "''aa''"
      and revoke = False and inserted = pool_B_pending and peer = "newPeer 0 addr_A"
      and effs = "[]" and env = "env_ok ''aa'' [addr_A]" and retry = False
      and peer' = "open_peer 0 False addr_A ''aa'' [addr_A]"
      and final = pool_B_pending
      and effs' = "[]"
      and r = "Inl (Thrown (ALREADY_CONNECTING ''aa''))"]
  by (simp add: pool_defs example_defs)

subsection \<open>The preconditions of addOutbound\<close>

lemma addOutbound_begin_find:
  "addOutbound_begin pool a k revoke =
     (case find fst (addOutbound_preconditions pool a k revoke) of
        Some check \<Rightarrow> Inl (snd check)
      | None \<Rightarrow>
          (case addOutbound_insert pool a k of
             (pool', peer) \<Rightarrow>
               Inr (pool', peer,
                    (case map_of (pendingOutboundPeers pool) k of
                       None \<Rightarrow> []
                     | Some pendingPeer \<Rightarrow> [RevokeConnectionRetries (peer_ident pendingPeer)]))))"
  by (auto simp: addOutbound_begin_def addOutbound_preconditions_def has_def
      split: option.splits prod.splits)

text \<open>
  C5 as stated does not hold: an error is not thrown whenever its own condition holds.
  C is banned and the pool has been disconnected since; \<open>addOutbound\<close> to C throws
  POOL_CLOSED, not NODE_IS_BANNED, because the check of the pool comes first.
\<close>

theorem addOutbound_banned_counterexample:
  "isBanned pool_closed_banned ''cc''
   \<and> addOutbound (env_ok ''cc'' [addr_C]) pool_closed_banned addr_C ''cc'' False False
       = (Inl (Thrown POOL_CLOSED), pool_closed_banned, [])"
  by (simp add: pool_defs example_defs)

text \<open>
  C5, amended. \<open>addOutbound\<close> checks the six preconditions of
  \<open>addOutbound_preconditions\<close> in their order: the target key is our own or the address
  is a loopback or wildcard host on our listen port; the pool is disconnecting or not
  connected; the host contains \<open>.onion\<close> and tor is disabled; the target key is banned;
  the key is already in \<open>peers\<close>; a pending outbound connection to the key exists and
  \<open>revokeConnectionRetries\<close> is false. The first precondition that fails decides the
  error (ATTEMPTED_CONNECTION_TO_SELF, POOL_CLOSED, NODE_TOR_ADDRESS, NODE_IS_BANNED,
  NODE_ALREADY_CONNECTED, ALREADY_CONNECTING), and \<open>addOutbound\<close> then throws it
  without creating a peer, changing the pool or calling anything. When none fails, a
  peer is created and inserted into \<open>pendingOutboundPeers\<close>. In particular a host that
  ends in \<open>.onion\<close> gives NODE_TOR_ADDRESS, and a banned key NODE_IS_BANNED, whenever the
  checks before them pass.
\<close>

theorem addOutbound_first_failing_precondition:
  "(find fst (addOutbound_preconditions pool a k revoke) = Some (True, err) \<longrightarrow>
      addOutbound env pool a k retry revoke = (Inl (Thrown err), pool, []))
   \<and> (find fst (addOutbound_preconditions pool a k revoke) = None \<longrightarrow>
        (\<exists>peer effs.
           addOutbound_begin pool a k revoke
             = Inr (pool \<lparr> pendingOutboundPeers := AList.update k peer (pendingOutboundPeers pool),
                           nextPeerId := Suc (nextPeerId pool) \<rparr>, peer, effs)))
   \<and> (host a = h @ ''.onion'' \<and> \<not> config_tor pool
        \<and> k \<noteq> nodePubKey pool \<and> \<not> addressIsSelf pool a
        \<and> \<not> disconnecting pool \<and> connected pool \<longrightarrow>
        addOutbound env pool a k retry revoke = (Inl (Thrown (NODE_TOR_ADDRESS k a)), pool, []))
   \<and> (isBanned pool k
        \<and> k \<noteq> nodePubKey pool \<and> \<not> addressIsSelf pool a
        \<and> \<not> disconnecting pool \<and> connected pool
        \<and> (config_tor pool \<or> indexOf (host a) ''.onion'' = - 1) \<longrightarrow>
        addOutbound env pool a k retry revoke = (Inl (Thrown (NODE_IS_BANNED k)), pool, []))"
proof -
  have first: "find fst (addOutbound_preconditions pool a k revoke) = Some (True, err) \<longrightarrow>
      addOutbound env pool a k retry revoke = (Inl (Thrown err), pool, [])"
    by (simp add: addOutbound_def addOutbound_begin_find)
  have none: "find fst (addOutbound_preconditions pool a k revoke) = None \<longrightarrow>
        (\<exists>peer effs.
           addOutbound_begin pool a k revoke
             = Inr (pool \<lparr> pendingOutboundPeers := AList.update k peer (pendingOutboundPeers pool),
                           nextPeerId := Suc (nextPeerId pool) \<rparr>, peer, effs))"
    by (simp add: addOutbound_begin_find addOutbound_insert_def Let_def)
  have "indexOf (h @ ''.onion'') ''.onion'' \<noteq> - 1"
    using indexOf_from_found [of 0 h "''.onion''" "[]"] by (simp add: indexOf_def)
  then have onion: "host a = h @ ''.onion'' \<and> \<not> config_tor pool
        \<and> k \<noteq> nodePubKey pool \<and> \<not> addressIsSelf pool a
        \<and> \<not> disconnecting pool \<and> connected pool \<longrightarrow>
        addOutbound env pool a k retry revoke = (Inl (Thrown (NODE_TOR_ADDRESS k a)), pool, [])"
    by (simp add: addOutbound_def addOutbound_begin_def)
  have banned: "isBanned pool k
        \<and> k \<noteq> nodePubKey pool \<and> \<not> addressIsSelf pool a
        \<and> \<not> disconnecting pool \<and> connected pool
        \<and> (config_tor pool \<or> indexOf (host a) ''.onion'' = - 1) \<longrightarrow>
        addOutbound env pool a k retry revoke = (Inl (Thrown (NODE_IS_BANNED k)), pool, [])"
    by (auto simp: addOutbound_def addOutbound_begin_def)
  from first none onion banned show ?thesis by blast
qed

theorem addOutbound_first_failing_precondition_witness:
  "addOutbound (env_ok ''aa'' [addr_A]) pool_A addr_B ''aa'' False False
     = (Inl (Thrown ATTEMPTED_CONNECTION_TO_SELF), pool_A, [])
   \<and> addOutbound (env_ok ''cc'' [addr_C]) pool_A
       \<lparr> host = ''xudpeer.onion'', port = 8885, lastConnected = None \<rparr> ''cc'' False False
     = (Inl (Thrown (NODE_TOR_ADDRESS ''cc''
          \<lparr> host = ''xudpeer.onion'', port = 8885, lastConnected = None \<rparr>)), pool_A, [])
   \<and> addOutbound (env_ok ''cc'' [addr_C]) (pool_A \<lparr> bannedNodes := [''cc''] \<rparr>) addr_C ''cc''
       False False
     = (Inl (Thrown (NODE_IS_BANNED ''cc'')), pool_A \<lparr> bannedNodes := [''cc''] \<rparr>, [])
   \<and> addOutbound (env_ok ''aa'' [addr_A]) pool_B_both addr_A ''aa'' False False
     = (Inl (Thrown (NODE_ALREADY_CONNECTED ''aa'' (Some addr_A))), pool_B_both, [])
   \<and> addOutbound (env_ok ''aa'' [addr_A]) pool_B_pending addr_A ''aa'' False False
     = (Inl (Thrown (ALREADY_CONNECTING ''aa'')), pool_B_pending, [])
   \<and> addOutbound_begin pool_B addr_A ''aa'' False = Inr (pool_B_pending, newPeer 0 addr_A, [])"
  using addOutbound_first_failing_precondition [where pool = pool_A and a = addr_B
      and k = "''aa''" and revoke = False and retry = False and env = "env_ok ''aa'' [addr_A]"
      and err = ATTEMPTED_CONNECTION_TO_SELF and h = "[]"]
    addOutbound_first_failing_precondition [where pool = pool_A
      and a = "\<lparr> host = ''xudpeer.onion'', port = 8885, lastConnected = None \<rparr>"
      and k = "''cc''" and revoke = False and retry = False and env = "env_ok ''cc'' [addr_C]"
      and err = "NODE_TOR_ADDRESS ''cc'' \<lparr> host = ''xudpeer.onion'', port = 8885, lastConnected = None \<rparr>"
      and h = "''xudpeer''"]
    addOutbound_first_failing_precondition [where pool = "pool_A \<lparr> bannedNodes := [''cc''] \<rparr>"
      and a = addr_C and k = "''cc''" and revoke = False and retry = False
      and env = "env_ok ''cc'' [addr_C]" and err = "NODE_IS_BANNED ''cc''" and h = "[]"]
    addOutbound_first_failing_precondition [where pool = pool_B_both and a = addr_A
      and k = "''aa''" and revoke = False and retry = False and env = "env_ok ''aa'' [addr_A]"
      and err = "NODE_ALREADY_CONNECTED ''aa'' (Some addr_A)" and h = "[]"]
    addOutbound_first_failing_precondition [where pool = pool_B_pending and a = addr_A
      and k = "''aa''" and revoke = False and retry = False and env = "env_ok ''aa'' [addr_A]"
      and err = "ALREADY_CONNECTING ''aa''" and h = "[]"]
    addOutbound_first_failing_precondition [where pool = pool_B and a = addr_A
      and k = "''aa''" and revoke = False and retry = False and env = "env_ok ''aa'' [addr_A]"
      and err = POOL_CLOSED and h = "[]"]
  by (simp add: addOutbound_preconditions_def pool_defs example_defs)

subsection \<open>The order of connection attempts\<close>

lemma tryAddresses_traced:
  "tryAddresses (traced add) node as (s, tr) = (ok, (s', tr')) \<Longrightarrow>
     \<exists>new. tr' = tr @ new \<and>
       (\<forall>rest more. follows (attempts_of node as @ rest) (new @ more)
                      = (if ok then more = [] else follows rest more))"
proof (induction as arbitrary: s tr)
  case Nil
  then show ?case by (simp add: attempts_of_def)
next
  case (Cons a as)
  show ?case
  proof (cases "case node_lastAddress node of None \<Rightarrow> False | Some la \<Rightarrow> areEqual a la")
    case True
    then have skip: "attempts_of node (a # as) = attempts_of node as"
      by (auto simp: attempts_of_def split: option.splits)
    from True Cons.prems have "tryAddresses (traced add) node as (s, tr) = (ok, (s', tr'))"
      by simp
    from Cons.IH [OF this] skip show ?thesis by simp
  next
    case False
    then have keep: "attempts_of node (a # as)
        = (a, node_nodePubKey node, False, False) # attempts_of node as"
      by (auto simp: attempts_of_def split: option.splits)
    obtain r s1 where call: "add a (node_nodePubKey node) False False s = (r, s1)"
      by (cases "add a (node_nodePubKey node) False False s") auto
    show ?thesis
    proof (cases r)
      case (Inr peer)
      with call have "traced add a (node_nodePubKey node) False False (s, tr)
          = (Inr peer, (s1, tr @ [((a, node_nodePubKey node, False, False), True)]))"
        by (simp add: traced_def)
      with False Cons.prems
      have "ok" and "tr' = tr @ [((a, node_nodePubKey node, False, False), True)]"
        by auto
      then show ?thesis using keep by simp
    next
      case (Inl err)
      with call have "traced add a (node_nodePubKey node) False False (s, tr)
          = (Inl err, (s1, tr @ [((a, node_nodePubKey node, False, False), False)]))"
        by (simp add: traced_def)
      with False Cons.prems
      have "tryAddresses (traced add) node as
              (s1, tr @ [((a, node_nodePubKey node, False, False), False)]) = (ok, (s', tr'))"
        by auto
      from Cons.IH [OF this] obtain new where
        new: "tr' = (tr @ [((a, node_nodePubKey node, False, False), False)]) @ new"
          "\<forall>rest more. follows (attempts_of node as @ rest) (new @ more)
                      = (if ok then more = [] else follows rest more)"
        by blast
      have "tr' = tr @ (((a, node_nodePubKey node, False, False), False) # new)"
        using new(1) by simp
      moreover have "\<forall>rest more.
          follows (attempts_of node (a # as) @ rest)
            ((((a, node_nodePubKey node, False, False), False) # new) @ more)
          = (if ok then more = [] else follows rest more)"
        using new(2) keep by simp
      ultimately show ?thesis by blast
    qed
  qed
qed

lemma tryConnectWithLastAddress_traced:
  "tryConnectWithLastAddress (traced add) node retry (s, tr) = (ok, (s', tr')) \<Longrightarrow>
     \<exists>new. tr' = tr @ new \<and>
       (\<forall>rest more. follows (last_attempt node retry @ rest) (new @ more)
                      = (if ok then more = [] else follows rest more))"
  by (auto simp: tryConnectWithLastAddress_def last_attempt_def traced_def
      split: option.splits prod.splits sum.splits)

lemma tryConnectNode_trace:
  "follows (connection_plan node retryConnecting)
     (snd (tryConnectNode (traced add) node retryConnecting (s, [])))"
proof -
  obtain ok1 s1 tr1 where
    r1: "tryConnectWithLastAddress (traced add) node False (s, []) = (ok1, (s1, tr1))"
    by (metis prod.exhaust)
  from tryConnectWithLastAddress_traced [OF r1]
  have f1: "\<And>rest more. follows (last_attempt node False @ rest) (tr1 @ more)
                      = (if ok1 then more = [] else follows rest more)"
    by simp
  obtain ok2 s2 tr2 where
    r2: "tryConnectWithAdvertisedAddresses (traced add) node (s1, tr1) = (ok2, (s2, tr2))"
    by (metis prod.exhaust)
  from tryAddresses_traced [OF r2 [unfolded tryConnectWithAdvertisedAddresses_def]]
  obtain new2 where
    n2: "tr2 = tr1 @ new2"
    and f2: "\<And>rest more.
       follows (attempts_of node (sortByLastConnected (node_addresses node)) @ rest) (new2 @ more)
         = (if ok2 then more = [] else follows rest more)"
    by blast
  obtain ok3 s3 tr3 where
    r3: "tryConnectWithLastAddress (traced add) node True (s2, tr2) = (ok3, (s3, tr3))"
    by (metis prod.exhaust)
  from tryConnectWithLastAddress_traced [OF r3]
  obtain new3 where
    n3: "tr3 = tr2 @ new3"
    and f3: "\<And>rest more. follows (last_attempt node True @ rest) (new3 @ more)
                      = (if ok3 then more = [] else follows rest more)"
    by blast
  let ?la = "last_attempt node False"
  let ?as = "attempts_of node (sortByLastConnected (node_addresses node))"
  let ?re = "if retryConnecting then last_attempt node True else []"
  show ?thesis
  proof (cases ok1)
    case True
    with r1 have "snd (tryConnectNode (traced add) node retryConnecting (s, [])) = tr1"
      by (simp add: tryConnectNode_def)
    moreover have "follows (?la @ (?as @ ?re)) tr1"
      using f1 [of "?as @ ?re" "[]"] True by simp
    ultimately show ?thesis by (simp add: connection_plan_def)
  next
    case no1: False
    have step1: "follows (?la @ (?as @ ?re)) (tr1 @ more) = follows (?as @ ?re) more" for more
      using f1 [of "?as @ ?re" more] no1 by simp
    show ?thesis
    proof (cases ok2)
      case True
      with r1 r2 no1
      have "snd (tryConnectNode (traced add) node retryConnecting (s, [])) = tr1 @ new2"
        by (simp add: tryConnectNode_def n2)
      moreover have "follows (?as @ ?re) new2"
        using f2 [of ?re "[]"] True by simp
      ultimately show ?thesis using step1 [of new2] by (simp add: connection_plan_def)
    next
      case no2: False
      have step2: "follows (?as @ ?re) (new2 @ more) = follows ?re more" for more
        using f2 [of ?re more] no2 by simp
      show ?thesis
      proof (cases retryConnecting)
        case True
        with r1 r2 r3 no1 no2
        have "snd (tryConnectNode (traced add) node retryConnecting (s, []))
                = tr1 @ (new2 @ new3)"
          by (simp add: tryConnectNode_def n2 n3)
        moreover have "follows ?re new3"
          using f3 [of "[]" "[]"] True by simp
        ultimately show ?thesis
          using step1 [of "new2 @ new3"] step2 [of new3] by (simp add: connection_plan_def)
      next
        case False
        with r1 r2 no1 no2
        have "snd (tryConnectNode (traced add) node retryConnecting (s, [])) = tr1 @ new2"
          by (simp add: tryConnectNode_def n2)
        moreover have "follows ?re []"
          using False by simp
        ultimately show ?thesis
          using step1 [of "new2"] step2 [of "[]"] by (simp add: connection_plan_def)
      qed
    qed
  qed
qed

text \<open>
  C6. Whatever \<open>addOutbound\<close> does on each attempt, the attempts of \<open>tryConnectNode\<close>
  follow the plan of the node: the last address first, if there is one; then the
  advertised addresses by \<open>lastConnected\<close> descending, without those equal to the last
  address; then, if \<open>retryConnecting\<close> was requested, the last address again with
  retrying enabled. The attempts stop at the first one that succeeds, and every attempt
  of the plan is made when none succeeds. The sorted list holds the advertised addresses
  and nothing else, latest first.
\<close>

theorem tryConnectNode_follows_plan:
  "follows (connection_plan node retryConnecting)
     (snd (tryConnectNode (traced add) node retryConnecting (s, [])))
   \<and> sorted_wrt (\<lambda>a b. lastConnectedTime b \<le> lastConnectedTime a)
       (sortByLastConnected (node_addresses node))
   \<and> set (sortByLastConnected (node_addresses node)) = set (node_addresses node)"
  using tryConnectNode_trace [of node retryConnecting add s]
    sortByLastConnected_descending [of "node_addresses node"]
  by (simp add: sortByLastConnected_def)

theorem tryConnectNode_follows_plan_witness:
  "connection_plan node_C True
     = [(addr_C_old, ''cc'', False, False), (addr_C, ''cc'', False, False),
        (addr_C_old, ''cc'', True, False)]
   \<and> snd (tryConnectNode (traced (pool_addOutbound envs_C)) node_C True ((pool_A, []), []))
     = [((addr_C_old, ''cc'', False, False), False), ((addr_C, ''cc'', False, False), True)]"
  using tryConnectNode_follows_plan [where node = node_C and retryConnecting = True
      and add = "pool_addOutbound envs_C" and s = "(pool_A, [])"]
  by (simp add: connection_plan_def last_attempt_def attempts_of_def tryConnectNode_def
        tryConnectWithLastAddress_def tryConnectWithAdvertisedAddresses_def traced_def
        pool_addOutbound_def pool_defs example_defs)

subsection \<open>The reply to GetNodes\<close>

text \<open>
  C7. On a GetNodes packet with the id \<open>reqId\<close> from a peer, the pool makes one call
  \<open>sendNodes\<close> on that peer, with \<open>reqId\<close>, and the list it sends has, in the order
  of the map, one entry of key and addresses for each peer in \<open>peers\<close> whose key differs
  from the requester's and that has at least one address; an entry is in the list only
  if it comes from such a peer.
\<close>

theorem handleGetNodes_reply:
  "\<exists>nodes. handleGetNodes pool peer reqId = [SendNodes (peer_ident peer) nodes reqId]
     \<and> nodes = map (\<lambda>p. (peer_nodePubKey p, case peer_addresses p of None \<Rightarrow> [] | Some as \<Rightarrow> as))
                 (filter (\<lambda>p. peer_nodePubKey p \<noteq> peer_nodePubKey peer
                              \<and> (\<exists>as. peer_addresses p = Some as \<and> as \<noteq> []))
                    (map snd (peers pool)))
     \<and> (\<forall>k as. (k, as) \<in> set nodes \<longleftrightarrow>
           (\<exists>p \<in> snd ` set (peers pool).
              peer_nodePubKey p = k \<and> k \<noteq> peer_nodePubKey peer
              \<and> peer_addresses p = Some as \<and> as \<noteq> []))"
proof -
  have same: "(\<lambda>p. peer_nodePubKey p \<noteq> peer_nodePubKey peer
                  \<and> (case peer_addresses p of None \<Rightarrow> False | Some as \<Rightarrow> length as > 0))
            = (\<lambda>p. peer_nodePubKey p \<noteq> peer_nodePubKey peer
                  \<and> (\<exists>as. peer_addresses p = Some as \<and> as \<noteq> []))"
    by (auto split: option.splits)
  show ?thesis
    unfolding handleGetNodes_def Let_def foldl_push same
    by (auto split: option.splits)
qed

theorem handleGetNodes_reply_witness:
  "handleGetNodes pool_B_peers (open_peer 0 False addr_A ''aa'' [addr_A]) ''req-1''
     = [SendNodes 0 [(Some ''cc'', [addr_C])] ''req-1'']"
  using handleGetNodes_reply [where pool = pool_B_peers
      and peer = "open_peer 0 False addr_A ''aa'' [addr_A]" and reqId = "''req-1''"]
  by (simp add: example_defs)

subsection \<open>Shutdown\<close>

text \<open>
  C8 as stated does not hold: \<open>disconnect\<close> does not await a pending bulk
  reconnection. B's node list has loaded and the connections to its three known nodes are
  being made, so \<open>loadingNodesPromise\<close> holds the fulfilled promise of
  \<open>nodes.load()\<close>. \<open>disconnect\<close> awaits that promise, makes its closing calls and
  returns with the flags cleared, and the bulk reconnection is still pending in the pool
  it leaves.
\<close>

theorem bulk_reconnection_not_awaited_counterexample:
  "connected pool_B_reconnecting
   \<and> loadingNodesPromise pool_B_reconnecting = Some NodesConnecting
   \<and> disconnect env_quiet pool_B_reconnecting
       = (Returns (pool_B_reconnecting \<lparr> serverListening := False, connected := False \<rparr>),
          [AwaitLoadingNodes, ServerClose, PeerClose 3 None, PeerClose 4 None,
           PeerClose 0 (Some Shutdown), PeerClose 1 (Some Shutdown), PeerClose 2 (Some Shutdown),
           AwaitClosing])
   \<and> loadingNodesPromise (pool_B_reconnecting \<lparr> serverListening := False, connected := False \<rparr>)
       = Some NodesConnecting"
  by (simp add: disconnect_def disconnect_awaitLoading_def unlisten_def
        closePendingConnections_def closePeers_def example_defs)


text \<open>
  C8, amended. \<open>disconnect\<close> on a pool that is not connected returns without an effect
  and leaves the pool as it is. On a connected pool it sets \<open>disconnecting\<close> and awaits
  \<open>loadingNodesPromise\<close> if that is set. The promise is the one of \<open>nodes.load()\<close>:
  while the load is pending \<open>disconnect\<close> waits for it, throws if it fails, and the
  start-up connections are not begun as long as \<open>disconnecting\<close> is set; when the load
  has finished \<open>disconnect\<close> goes on without waiting for the bulk reconnection. It
  then makes its closing calls one after the other on the same pool, none waiting for
  another: it closes the server if it is listening, closes every pending outbound and
  every pending inbound peer, and closes every peer in \<open>peers\<close> with the reason
  Shutdown; then it awaits them together. Only when they have all completed does it
  clear \<open>connected\<close> and \<open>disconnecting\<close>; while the promise of \<open>unlisten\<close>, which
  is resolved by the server's \<open>close\<close> event, is not resolved, it does not return and
  clears neither flag.
\<close>

theorem disconnect_sequence:
  "(\<not> connected pool \<longrightarrow> disconnect env pool = (Returns pool, []))
   \<and> (connected pool \<longrightarrow>
        (loadingNodesPromise pool = None \<longrightarrow>
           disconnect_awaitLoading env (pool \<lparr> disconnecting := True \<rparr>)
             = (Some (pool \<lparr> disconnecting := True \<rparr>), []))
        \<and> (loadingNodesPromise pool = Some NodesConnecting \<longrightarrow>
             disconnect_awaitLoading env (pool \<lparr> disconnecting := True \<rparr>)
               = (Some (during_loading env (pool \<lparr> disconnecting := True \<rparr>)), [AwaitLoadingNodes]))
        \<and> (loadingNodesPromise pool = Some NodesLoading \<longrightarrow>
             (nodesLoad env = None \<longrightarrow>
                disconnect env pool
                  = (Rejects (during_loading env (pool \<lparr> disconnecting := True \<rparr>)),
                     [AwaitLoadingNodes]))
             \<and> (\<forall>count. nodesLoad env = Some count
                   \<and> disconnecting (during_loading env (pool \<lparr> disconnecting := True \<rparr>)) \<longrightarrow>
                   disconnect_awaitLoading env (pool \<lparr> disconnecting := True \<rparr>)
                     = (Some ((during_loading env (pool \<lparr> disconnecting := True \<rparr>))
                               \<lparr> loadingNodesPromise := None \<rparr>),
                        [AwaitLoadingNodes])))
        \<and> (\<forall>closing awaited.
              disconnect_awaitLoading env (pool \<lparr> disconnecting := True \<rparr>) = (Some closing, awaited)
              \<longrightarrow>
              (\<exists>run unlistened.
                 disconnect env pool =
                   (run,
                    awaited
                    @ (if server closing \<and> serverListening closing then [ServerClose] else [])
                    @ map (\<lambda>p. PeerClose (peer_ident p) None)
                        (map snd (pendingOutboundPeers closing) @ pendingInboundPeers closing)
                    @ map (\<lambda>p. PeerClose (peer_ident p) (Some Shutdown)) (map snd (peers closing))
                    @ [AwaitClosing])
                 \<and> unlistened = (if server closing \<and> serverListening closing
                                  then closing \<lparr> serverListening := False \<rparr> else closing)
                 \<and> (\<not> server closing \<or> serverCloseEvent env \<longrightarrow>
                      run = Returns ((during_closing env unlistened)
                                       \<lparr> connected := False, disconnecting := False \<rparr>))
                 \<and> (server closing \<and> \<not> serverCloseEvent env \<longrightarrow>
                      run = Hangs (during_closing env unlistened)))))"
  by (auto simp: disconnect_def disconnect_awaitLoading_def init_loaded_def unlisten_def
        closePendingConnections_def closePeers_def Let_def)

theorem disconnect_sequence_witness:
  "disconnect env_quiet (pool_B_peers \<lparr> connected := False \<rparr>)
     = (Returns (pool_B_peers \<lparr> connected := False \<rparr>), [])
   \<and> disconnect env_quiet pool_B_peers
     = (Returns (pool_B_peers \<lparr> serverListening := False, connected := False \<rparr>),
        [ServerClose, PeerClose 3 None, PeerClose 4 None,
         PeerClose 0 (Some Shutdown), PeerClose 1 (Some Shutdown), PeerClose 2 (Some Shutdown),
         AwaitClosing])
   \<and> disconnect env_quiet pool_B_loading
     = (Returns (pool_B_peers \<lparr> serverListening := False, connected := False \<rparr>),
        [AwaitLoadingNodes, ServerClose, PeerClose 3 None, PeerClose 4 None,
         PeerClose 0 (Some Shutdown), PeerClose 1 (Some Shutdown), PeerClose 2 (Some Shutdown),
         AwaitClosing])
   \<and> disconnect (env_quiet \<lparr> nodesLoad := None \<rparr>) pool_B_loading
     = (Rejects (pool_B_loading \<lparr> disconnecting := True \<rparr>), [AwaitLoadingNodes])
   \<and> disconnect env_no_close pool_B_deaf
     = (Hangs (pool_B_deaf \<lparr> disconnecting := True \<rparr>),
        [PeerClose 3 None, PeerClose 4 None,
         PeerClose 0 (Some Shutdown), PeerClose 1 (Some Shutdown), PeerClose 2 (Some Shutdown),
         AwaitClosing])"
  using disconnect_sequence [where pool = "pool_B_peers \<lparr> connected := False \<rparr>" and env = env_quiet]
    disconnect_sequence [where pool = pool_B_peers and env = env_quiet]
    disconnect_sequence [where pool = pool_B_loading and env = env_quiet]
    disconnect_sequence [where pool = pool_B_loading and env = "env_quiet \<lparr> nodesLoad := None \<rparr>"]
    disconnect_sequence [where pool = pool_B_deaf and env = env_no_close]
  by (simp add: disconnect_awaitLoading_def example_defs)

subsection \<open>Inbound sockets\<close>

lemma openPeer_admit_failure:
  "openPeer_admit env pool peer k = (Inl e, pool', effs) \<Longrightarrow>
     pool' = pool \<or> pool' = during_wait env pool"
  by (auto simp: openPeer_admit_def openPeer_set_def Let_def split: if_splits)

lemma openPeer_try_pool:
  "openPeer_try env pool peer expected = (r, pool', effs) \<Longrightarrow>
     (case r of
        Inl e \<Rightarrow> pool' = during_beginOpen env pool
                  \<or> pool' = during_completeOpen env (during_beginOpen env pool)
      | Inr x \<Rightarrow> pool' = during_completeOpen env (during_beginOpen env pool))"
  by (auto simp: openPeer_try_def Let_def split: sum.splits prod.splits option.splits)

lemma openPeer_failure:
  assumes "openPeer env pool peer expected retry = (Inl e, pool', effs)"
  shows "pool' = pool \<or> pool' = during_beginOpen env pool
     \<or> pool' = during_completeOpen env (during_beginOpen env pool)
     \<or> pool' = during_wait env (during_completeOpen env (during_beginOpen env pool))"
proof (cases "disconnecting pool \<or> \<not> connected pool")
  case True
  with assms show ?thesis by (simp add: openPeer_def)
next
  case False
  obtain r1 pool1 effs1 where t: "openPeer_try env pool peer expected = (r1, pool1, effs1)"
    by (metis prod.exhaust)
  show ?thesis
  proof (cases r1)
    case (Inl e1)
    with t False assms have "pool' = pool1" by (simp add: openPeer_def)
    with openPeer_try_pool [OF t] Inl show ?thesis by auto
  next
    case (Inr x)
    obtain peer1 k where x: "x = (peer1, k)" by (cases x)
    from openPeer_try_pool [OF t] Inr
    have p1: "pool1 = during_completeOpen env (during_beginOpen env pool)" by simp
    from t False assms Inr x obtain effs2 where
      "openPeer_admit env pool1 peer1 k = (Inl e, pool', effs2)"
      by (auto simp: openPeer_def split: prod.splits)
    from openPeer_admit_failure [OF this] p1 show ?thesis by auto
  qed
qed

lemma openPeer_succeeds_iff:
  "\<not> isl (fst (openPeer env pool peer expected retry)) \<longleftrightarrow> admission_conditions env pool peer"
proof (cases "beginOpen env")
  case (Inl err)
  then show ?thesis
    by (simp add: openPeer_def openPeer_try_def admission_conditions_def)
next
  case (Inr hs)
  obtain v effs where v: "validatePeer (semver_valid env) (semver_compare env)
      (during_beginOpen env pool) (after_hello peer hs) = (v, effs)"
    by (metis prod.exhaust)
  show ?thesis
  proof (cases v)
    case (Inl err)
    with Inr v show ?thesis
      by (simp add: openPeer_def openPeer_try_def admission_conditions_def Let_def)
  next
    case k: (Inr k)
    show ?thesis
    proof (cases "completeOpen env")
      case (Some err)
      with Inr v k show ?thesis
        by (simp add: openPeer_def openPeer_try_def admission_conditions_def Let_def)
    next
      case None
      with Inr v k show ?thesis
        by (auto simp: openPeer_def openPeer_try_def openPeer_admit_def openPeer_set_def
            admission_conditions_def duplicate_closes_def Let_def)
    qed
  qed
qed


text \<open>
  C9 as stated does not hold. A socket whose client has already disconnected has no
  remote address; it is destroyed and no peer is created although no address is banned.
  And a handshake that succeeds does not always bring the peer into \<open>peers\<close>: in the
  race of two nodes both phases of the handshake on A's socket succeed at B, and B then
  closes the connection as a duplicate; afterwards the only peer in \<open>peers\<close> is the one
  with the identity 0, not the inbound one with the identity 1.
\<close>

theorem inbound_not_admitted_counterexample:
  "handleSocket env_race pool_B_pending sock_gone = (pool_B_pending, [SocketDestroy])
   \<and> bannedNodes pool_B_pending = []
   \<and> beginOpen env_race = Inr (hello ''aa'' [addr_A]) \<and> completeOpen env_race = None
   \<and> handleSocket env_race pool_B_pending sock_A
       = (pool_B_both \<lparr> nextPeerId := 2 \<rparr>, [PeerClose 1 (Some AlreadyConnected)])
   \<and> peer_idents (peers (pool_B_both \<lparr> nextPeerId := 2 \<rparr>)) = [0]"
  by (simp add: peer_idents_def pool_defs example_defs)


text \<open>
  C9, amended. An accepted socket that has no remote address, or whose remote address is
  banned, is destroyed before any handshake, no \<open>Peer\<close> object is created and the pool
  stays as it is. For any other socket a \<open>Peer\<close> is made and added to
  \<open>pendingInboundPeers\<close>, it is there while \<open>openPeer\<close> runs, and it is removed when
  the open attempt has ended. \<open>openPeer\<close> succeeds exactly when the conditions of
  \<open>admission_conditions\<close> hold: the pool is connected and not disconnecting, both
  phases of the handshake succeed, \<open>validatePeer\<close> accepts the peer, and the
  resolution of duplicates does not close the connection. Provided the other tasks do not
  put this very object into \<open>peers\<close>, the peer is in \<open>peers\<close> afterwards exactly under
  these conditions.
\<close>

theorem handleSocket_inbound:
  "(remoteAddress sock = None \<or> remoteAddress sock = Some []
      \<or> (\<exists>ip. remoteAddress sock = Some ip \<and> isBanned pool ip)
     \<longrightarrow> handleSocket env pool sock = (pool, [SocketDestroy]))
   \<and> ((\<exists>ip. remoteAddress sock = Some ip \<and> ip \<noteq> [] \<and> \<not> isBanned pool ip) \<longrightarrow>
        (\<exists>added peer r opened effs.
           addInbound_add pool sock = (added, peer)
           \<and> peer_ident peer = nextPeerId pool
           \<and> peer_ident peer \<in> peer_ident ` set (pendingInboundPeers added)
           \<and> peers added = peers pool
           \<and> openPeer env added peer None False = (r, opened, effs)
           \<and> handleSocket env pool sock
               = (opened \<lparr> pendingInboundPeers :=
                            filter (\<lambda>q. peer_ident q \<noteq> peer_ident peer) (pendingInboundPeers opened) \<rparr>,
                  effs)
           \<and> peer_ident peer \<notin> peer_ident ` set (pendingInboundPeers (fst (handleSocket env pool sock)))
           \<and> (\<not> isl r \<longleftrightarrow> admission_conditions env added peer)
           \<and> (\<not> isl r \<longrightarrow> (\<exists>hs. beginOpen env = Inr hs) \<and> completeOpen env = None)
           \<and> (nextPeerId pool \<notin> set (peer_idents (peers pool))
               \<and> keeps_out (nextPeerId pool) (during_beginOpen env)
               \<and> keeps_out (nextPeerId pool) (during_completeOpen env)
               \<and> keeps_out (nextPeerId pool) (during_wait env)
               \<longrightarrow> (nextPeerId pool \<in> set (peer_idents (peers (fst (handleSocket env pool sock))))
                      \<longleftrightarrow> admission_conditions env added peer))))"
proof -
  have reject: "remoteAddress sock = None \<or> remoteAddress sock = Some []
      \<or> (\<exists>ip. remoteAddress sock = Some ip \<and> isBanned pool ip)
     \<longrightarrow> handleSocket env pool sock = (pool, [SocketDestroy])"
    by (auto simp: handleSocket_def)
  have accept: "\<exists>added peer r opened effs.
           addInbound_add pool sock = (added, peer)
           \<and> peer_ident peer = nextPeerId pool
           \<and> peer_ident peer \<in> peer_ident ` set (pendingInboundPeers added)
           \<and> peers added = peers pool
           \<and> openPeer env added peer None False = (r, opened, effs)
           \<and> handleSocket env pool sock
               = (opened \<lparr> pendingInboundPeers :=
                            filter (\<lambda>q. peer_ident q \<noteq> peer_ident peer) (pendingInboundPeers opened) \<rparr>,
                  effs)
           \<and> peer_ident peer \<notin> peer_ident ` set (pendingInboundPeers (fst (handleSocket env pool sock)))
           \<and> (\<not> isl r \<longleftrightarrow> admission_conditions env added peer)
           \<and> (\<not> isl r \<longrightarrow> (\<exists>hs. beginOpen env = Inr hs) \<and> completeOpen env = None)
           \<and> (nextPeerId pool \<notin> set (peer_idents (peers pool))
               \<and> keeps_out (nextPeerId pool) (during_beginOpen env)
               \<and> keeps_out (nextPeerId pool) (during_completeOpen env)
               \<and> keeps_out (nextPeerId pool) (during_wait env)
               \<longrightarrow> (nextPeerId pool \<in> set (peer_idents (peers (fst (handleSocket env pool sock))))
                      \<longleftrightarrow> admission_conditions env added peer))"
    if ok: "remoteAddress sock = Some ip" "ip \<noteq> []" "\<not> isBanned pool ip" for ip
  proof -
    obtain pool1 peer where add: "addInbound_add pool sock = (pool1, peer)"
      by (metis prod.exhaust)
    obtain r pool2 effs where op: "openPeer env pool1 peer None False = (r, pool2, effs)"
      by (metis prod.exhaust)
    from add have id: "peer_ident peer = nextPeerId pool"
      and pend: "peer_ident peer \<in> peer_ident ` set (pendingInboundPeers pool1)"
      and same: "peers pool1 = peers pool"
      by (auto simp: addInbound_add_def Let_def fromInbound_def split: if_splits)
    from ok add op have hs: "handleSocket env pool sock
        = (pool2 \<lparr> pendingInboundPeers :=
                     filter (\<lambda>q. peer_ident q \<noteq> peer_ident peer) (pendingInboundPeers pool2) \<rparr>,
           effs)"
      by (simp add: handleSocket_def addInbound_def tryOpenPeer_def)
    then have gone: "peer_ident peer \<notin> peer_ident ` set (pendingInboundPeers (fst (handleSocket env pool sock)))"
      by auto
    have cond: "\<not> isl r \<longleftrightarrow> admission_conditions env pool1 peer"
      using openPeer_succeeds_iff [of env pool1 peer None False] op by simp
    have shake: "\<not> isl r \<longrightarrow> (\<exists>hs. beginOpen env = Inr hs) \<and> completeOpen env = None"
      using cond by (auto simp: admission_conditions_def)
    have iff: "nextPeerId pool \<in> set (peer_idents (peers (fst (handleSocket env pool sock))))
                      \<longleftrightarrow> admission_conditions env pool1 peer"
      if fresh: "nextPeerId pool \<notin> set (peer_idents (peers pool))"
        and kB: "keeps_out (nextPeerId pool) (during_beginOpen env)"
        and kC: "keeps_out (nextPeerId pool) (during_completeOpen env)"
        and kW: "keeps_out (nextPeerId pool) (during_wait env)"
    proof (cases r)
      case (Inr p')
      with op openPeer_success [of env pool1 peer None False p' pool2 effs]
      obtain k where "map_of (peers pool2) k = Some p'" "peer_ident p' = peer_ident peer"
        by blast
      with map_of_ident [of "peers pool2" k p'] id hs Inr cond show ?thesis by simp
    next
      case (Inl e)
      from fresh same have f1: "nextPeerId pool \<notin> set (peer_idents (peers pool1))" by simp
      with kB have f2: "nextPeerId pool \<notin> set (peer_idents (peers (during_beginOpen env pool1)))"
        by (simp add: keeps_out_def)
      with kC have f3: "nextPeerId pool \<notin> set (peer_idents (peers
          (during_completeOpen env (during_beginOpen env pool1))))"
        by (simp add: keeps_out_def)
      with kW have f4: "nextPeerId pool \<notin> set (peer_idents (peers
          (during_wait env (during_completeOpen env (during_beginOpen env pool1)))))"
        by (simp add: keeps_out_def)
      from op Inl openPeer_failure [of env pool1 peer None False e pool2 effs] f1 f2 f3 f4
      have "nextPeerId pool \<notin> set (peer_idents (peers pool2))" by auto
      with hs Inl cond show ?thesis by simp
    qed
    from add id pend same op hs gone cond shake iff show ?thesis by blast
  qed
  from reject accept show ?thesis by blast
qed

theorem handleSocket_inbound_witness:
  "handleSocket (env_ok ''aa'' [addr_A]) (pool_B_pending \<lparr> bannedNodes := [''192.0.2.1''] \<rparr>) sock_A
     = (pool_B_pending \<lparr> bannedNodes := [''192.0.2.1''] \<rparr>, [SocketDestroy])
   \<and> handleSocket (env_ok ''aa'' [addr_A]) pool_B_pending sock_A
     = (pool_B_pending
          \<lparr> peers := [(''aa'', open_peer 1 True
                               \<lparr> host = ''192.0.2.1'', port = 40000, lastConnected = None \<rparr>
                               ''aa'' [addr_A])],
            nextPeerId := 2 \<rparr>,
        [HandleOpenedPeer 1])
   \<and> admission_conditions (env_ok ''aa'' [addr_A]) (pool_B_pending \<lparr> nextPeerId := 2 \<rparr>)
        (fromInbound 1 sock_A)
   \<and> handleSocket env_down pool_B_pending sock_A = (pool_B_pending \<lparr> nextPeerId := 2 \<rparr>, [])
   \<and> handleSocket (env_ok ''aa'' [addr_A]) (pool_B_pending \<lparr> disconnecting := True \<rparr>) sock_A
     = (pool_B_pending \<lparr> disconnecting := True, nextPeerId := 2 \<rparr>, [])
   \<and> handleSocket (env_ok ''aa'' [addr_A]) (pool_B_pending \<lparr> bannedNodes := [''aa''] \<rparr>) sock_A
     = (pool_B_pending \<lparr> bannedNodes := [''aa''], nextPeerId := 2 \<rparr>, [PeerClose 1 (Some Banned)])
   \<and> handleSocket (env_ok ''aa'' [addr_A]) pool_B_both sock_A
     = (pool_B_both \<lparr> nextPeerId := 2 \<rparr>, [PeerClose 1 (Some AlreadyConnected)])"
  using handleSocket_inbound [where pool = "pool_B_pending \<lparr> bannedNodes := [''192.0.2.1''] \<rparr>"
      and sock = sock_A and env = "env_ok ''aa'' [addr_A]"]
    handleSocket_inbound [where pool = pool_B_pending and sock = sock_A
      and env = "env_ok ''aa'' [addr_A]"]
    handleSocket_inbound [where pool = pool_B_pending and sock = sock_A and env = env_down]
    handleSocket_inbound [where pool = "pool_B_pending \<lparr> disconnecting := True \<rparr>"
      and sock = sock_A and env = "env_ok ''aa'' [addr_A]"]
    handleSocket_inbound [where pool = "pool_B_pending \<lparr> bannedNodes := [''aa''] \<rparr>"
      and sock = sock_A and env = "env_ok ''aa'' [addr_A]"]
    handleSocket_inbound [where pool = pool_B_both and sock = sock_A
      and env = "env_ok ''aa'' [addr_A]"]
  by (simp add: keeps_out_def peer_idents_def admission_conditions_def duplicate_closes_def
        pool_defs example_defs)

subsection \<open>Reputation events\<close>

text \<open>
  C10. A pool constructed with \<open>strict = false\<close> forwards a reputation event to the
  node list only if it is one of ManualBan, ManualUnban, SwapAbuse, SwapMisbehavior,
  WireProtocolErr and InvalidAuth, and drops every other event without any call into the
  node list (so no score changes and no ban follows); a pool constructed with
  \<open>strict = true\<close> forwards every event.
\<close>

theorem addReputationEvent_forwards:
  "(strict pool \<longrightarrow> addReputationEvent pool k ev = [NodesAddReputationEvent k ev])
   \<and> (\<not> strict pool \<longrightarrow>
        (ev \<in> {ManualBan, ManualUnban, SwapAbuse, SwapMisbehavior, WireProtocolErr, InvalidAuth}
           \<longrightarrow> addReputationEvent pool k ev = [NodesAddReputationEvent k ev])
      \<and> (ev \<notin> {ManualBan, ManualUnban, SwapAbuse, SwapMisbehavior, WireProtocolErr, InvalidAuth}
           \<longrightarrow> addReputationEvent pool k ev = []))"
  by (auto simp: addReputationEvent_def)

theorem addReputationEvent_forwards_witness:
  "addReputationEvent pool_A ''bb'' SwapSuccess = [NodesAddReputationEvent ''bb'' SwapSuccess]
   \<and> addReputationEvent (pool_A \<lparr> strict := False \<rparr>) ''bb'' SwapAbuse
       = [NodesAddReputationEvent ''bb'' SwapAbuse]
   \<and> addReputationEvent (pool_A \<lparr> strict := False \<rparr>) ''bb'' SwapSuccess = []"
  using addReputationEvent_forwards [of pool_A "''bb''" SwapSuccess]
    addReputationEvent_forwards [of "pool_A \<lparr> strict := False \<rparr>" "''bb''" SwapAbuse]
    addReputationEvent_forwards [of "pool_A \<lparr> strict := False \<rparr>" "''bb''" SwapSuccess]
  by (simp add: pool_A_def)

end
